theory Spec2Isabelle
  imports Complex_Main
begin

section \<open>Numbers, vectors and exceptions\<close>

text \<open>
  The two simulation scripts \<^verbatim>\<open>ballcollisiongemini.py\<close> and
  \<^verbatim>\<open>ballcollisiongeminiwithui.py\<close> compute with Python floats and with
  \<^verbatim>\<open>pygame.math.Vector2\<close>. The embedding reads every float as a real number and every
  float operation as the exact operation on the reals: rounding, overflow in float
  arithmetic, infinities and NaN are outside the model. A \<^verbatim>\<open>Vector2\<close> is a pair of reals.
\<close>

type_synonym vec2 = "real \<times> real"

datatype py_error = TypeError | ValueError | ZeroDivisionError | OverflowError

text \<open>\<^verbatim>\<open>Vector2\<close> arithmetic: \<^verbatim>\<open>u + v\<close>, \<^verbatim>\<open>u - v\<close>, \<^verbatim>\<open>v * k\<close>, \<^verbatim>\<open>-v\<close>,
  \<^verbatim>\<open>u.dot(v)\<close>, \<^verbatim>\<open>v.length_squared()\<close>.\<close>

definition vadd :: "vec2 \<Rightarrow> vec2 \<Rightarrow> vec2" where
  "vadd u v = (fst u + fst v, snd u + snd v)"

definition vsub :: "vec2 \<Rightarrow> vec2 \<Rightarrow> vec2" where
  "vsub u v = (fst u - fst v, snd u - snd v)"

definition smul :: "vec2 \<Rightarrow> real \<Rightarrow> vec2" where
  "smul v k = (fst v * k, snd v * k)"

definition vneg :: "vec2 \<Rightarrow> vec2" where
  "vneg v = (- fst v, - snd v)"

definition dot :: "vec2 \<Rightarrow> vec2 \<Rightarrow> real" where
  "dot u v = fst u * fst v + snd u * snd v"

definition length_squared :: "vec2 \<Rightarrow> real" where
  "length_squared v = fst v * fst v + snd v * snd v"

text \<open>Division raises \<^verbatim>\<open>ZeroDivisionError\<close> on a zero divisor, for a float
  (\<^verbatim>\<open>a / b\<close>) and for a vector (\<^verbatim>\<open>v / k\<close>).\<close>

definition py_div :: "real \<Rightarrow> real \<Rightarrow> py_error + real" where
  "py_div a b = (if b = 0 then Inl ZeroDivisionError else Inr (a / b))"

definition vdiv :: "vec2 \<Rightarrow> real \<Rightarrow> py_error + vec2" where
  "vdiv v k = (if k = 0 then Inl ZeroDivisionError else Inr (fst v / k, snd v / k))"

text \<open>\<^verbatim>\<open>v.normalize()\<close> raises \<^verbatim>\<open>ValueError\<close> on a vector of length zero.\<close>

definition normalize :: "vec2 \<Rightarrow> py_error + vec2" where
  "normalize v =
     (let len = sqrt (length_squared v)
      in if len = 0 then Inl ValueError else Inr (fst v / len, snd v / len))"

section \<open>The Ball class\<close>

text \<open>
  The constructor tests its arguments with \<^verbatim>\<open>isinstance(v, (int, float))\<close>, so the
  arguments \<^verbatim>\<open>x\<close>, \<^verbatim>\<open>y\<close>, \<^verbatim>\<open>radius\<close> and \<^verbatim>\<open>mass\<close> are dynamically typed values.
  A \<^verbatim>\<open>bool\<close> is an instance of \<^verbatim>\<open>int\<close> in Python. The arguments \<^verbatim>\<open>velocity\<close> and
  \<^verbatim>\<open>acceleration\<close> are taken as well-formed vectors and \<^verbatim>\<open>color\<close> as an RGB triple.
\<close>

datatype pyval = PyInt int | PyFloat real | PyBool bool | PyStr string | PyNone

fun isinstance_int_float :: "pyval \<Rightarrow> bool" where
  "isinstance_int_float (PyInt i) = True"
| "isinstance_int_float (PyFloat r) = True"
| "isinstance_int_float (PyBool b) = True"
| "isinstance_int_float (PyStr s) = False"
| "isinstance_int_float PyNone = False"

text \<open>The number a numeric value is compared as in \<^verbatim>\<open>radius <= 0\<close> and
  \<^verbatim>\<open>mass < 0\<close>; an \<^verbatim>\<open>int\<close> is compared exactly, whatever its size. It is only read
  where \<^const>\<open>isinstance_int_float\<close> holds.\<close>

fun num :: "pyval \<Rightarrow> real" where
  "num (PyInt i) = of_int i"
| "num (PyFloat r) = r"
| "num (PyBool b) = (if b then 1 else 0)"
| "num (PyStr s) = 0"
| "num PyNone = 0"

text \<open>
  The conversion \<^verbatim>\<open>float(v)\<close>, which \<^verbatim>\<open>Vector2(x, y)\<close> applies to its arguments as
  well. An \<^verbatim>\<open>int\<close> that rounds beyond the largest double raises \<^verbatim>\<open>OverflowError\<close>:
  these are the integers of absolute value at least \<^verbatim>\<open>2**1024 - 2**970\<close>, halfway
  between the largest double and \<^verbatim>\<open>2**1024\<close>. Below that bound the result is read as
  the integer itself, rounding being outside the model, and a \<^verbatim>\<open>PyFloat\<close> is a finite
  float. (\<^verbatim>\<open>Vector2\<close> is \<^verbatim>\<open>pygame\<close>'s; the exception it raises on such an integer is
  taken to be that of the conversion.)
\<close>

definition float_int_bound :: int where
  "float_int_bound = 2 ^ 1024 - 2 ^ 970"

fun too_large :: "pyval \<Rightarrow> bool" where
  "too_large (PyInt i) = (float_int_bound \<le> \<bar>i\<bar>)"
| "too_large (PyFloat r) = False"
| "too_large (PyBool b) = False"
| "too_large (PyStr s) = False"
| "too_large PyNone = False"

fun py_float :: "pyval \<Rightarrow> py_error + real" where
  "py_float (PyInt i) = (if float_int_bound \<le> \<bar>i\<bar> then Inl OverflowError else Inr (of_int i))"
| "py_float (PyFloat r) = Inr r"
| "py_float (PyBool b) = Inr (if b then 1 else 0)"
| "py_float (PyStr s) = Inl ValueError"
| "py_float PyNone = Inl TypeError"

type_synonym rgb = "nat \<times> nat \<times> nat"

record ball =
  position :: vec2
  velocity :: vec2
  acceleration :: vec2
  radius :: real
  mass :: real
  inv_mass :: real
  color :: rgb

text \<open>
  \<^verbatim>\<open>Ball.__init__\<close> of \<^verbatim>\<open>ballcollisiongemini.py\<close>: the mass must be positive. After
  the three guards the fields are set in the order of the source: \<^verbatim>\<open>vector2(x, y)\<close>,
  \<^verbatim>\<open>float(radius)\<close>, \<^verbatim>\<open>float(mass)\<close>, each of which can still raise.
\<close>

definition Ball_init ::
  "pyval \<Rightarrow> pyval \<Rightarrow> pyval \<Rightarrow> rgb \<Rightarrow> pyval \<Rightarrow> vec2 \<Rightarrow> vec2 \<Rightarrow> py_error + ball" where
  "Ball_init x y r c m vel acc =
     (if \<not> isinstance_int_float x \<or> \<not> isinstance_int_float y then Inl TypeError
      else if \<not> isinstance_int_float r \<or> num r \<le> 0 then Inl ValueError
      else if \<not> isinstance_int_float m \<or> num m \<le> 0 then Inl ValueError
      else
        (case py_float x of Inl e \<Rightarrow> Inl e | Inr fx \<Rightarrow>
        (case py_float y of Inl e \<Rightarrow> Inl e | Inr fy \<Rightarrow>
        (case py_float r of Inl e \<Rightarrow> Inl e | Inr fr \<Rightarrow>
        (case py_float m of Inl e \<Rightarrow> Inl e | Inr fm \<Rightarrow>
           Inr \<lparr> position = (fx, fy), velocity = vel, acceleration = acc,
                 radius = fr, mass = fm,
                 inv_mass = (if fm > 0 then 1 / fm else 0), color = c \<rparr>)))))"

text \<open>\<^verbatim>\<open>Ball.__init__\<close> of \<^verbatim>\<open>ballcollisiongeminiwithui.py\<close>: a zero mass is allowed
  and stands for an immovable ball.\<close>

definition Ball_init_ui ::
  "pyval \<Rightarrow> pyval \<Rightarrow> pyval \<Rightarrow> rgb \<Rightarrow> pyval \<Rightarrow> vec2 \<Rightarrow> vec2 \<Rightarrow> py_error + ball" where
  "Ball_init_ui x y r c m vel acc =
     (if \<not> isinstance_int_float x \<or> \<not> isinstance_int_float y then Inl TypeError
      else if \<not> isinstance_int_float r \<or> num r \<le> 0 then Inl ValueError
      else if \<not> isinstance_int_float m \<or> num m < 0 then Inl ValueError
      else
        (case py_float x of Inl e \<Rightarrow> Inl e | Inr fx \<Rightarrow>
        (case py_float y of Inl e \<Rightarrow> Inl e | Inr fy \<Rightarrow>
        (case py_float r of Inl e \<Rightarrow> Inl e | Inr fr \<Rightarrow>
        (case py_float m of Inl e \<Rightarrow> Inl e | Inr fm \<Rightarrow>
           Inr \<lparr> position = (fx, fy), velocity = vel, acceleration = acc,
                 radius = fr, mass = fm,
                 inv_mass = (if fm > 0 then 1 / fm else 0), color = c \<rparr>)))))"

text \<open>
  \<^verbatim>\<open>Ball.update\<close> (the same in both files) mutates the ball. The result is the ball
  after the call, paired with the exception when one was raised.
\<close>

definition update :: "ball \<Rightarrow> real \<Rightarrow> ball \<times> py_error option" where
  "update self dt =
     (if dt < 0 then (self, Some ValueError)
      else
        let self1 = self \<lparr> velocity := vadd (velocity self) (smul (acceleration self) dt) \<rparr>;
            self2 = self1 \<lparr> position := vadd (position self1) (smul (velocity self1) dt) \<rparr>
        in (self2, None))"

text \<open>\<^verbatim>\<open>Ball.apply_force\<close> (the same in both files).\<close>

definition apply_force :: "ball \<Rightarrow> vec2 \<Rightarrow> ball" where
  "apply_force self force =
     (if inv_mass self > 0
      then self \<lparr> acceleration := vadd (acceleration self) (smul force (inv_mass self)) \<rparr>
      else self)"

text \<open>The fields the constructor relates: a positive radius, a non-negative mass and
  the cached inverse mass.\<close>

definition ball_ok :: "ball \<Rightarrow> bool" where
  "ball_ok b =
     (radius b > 0 \<and> mass b \<ge> 0 \<and> inv_mass b = (if mass b > 0 then 1 / mass b else 0))"

section \<open>The constants of the two simulations\<close>

text \<open>
  Both simulation functions fix the screen size, the gravity vector, the coefficient of
  restitution and the friction factor as local constants. The embedding passes them as a
  record, so that a property can be stated for every coefficient of restitution, and
  defines the values each file uses.
\<close>

record config =
  WIDTH :: real
  HEIGHT :: real
  GRAVITY :: vec2
  RESTITUTION :: real
  FRICTION :: real

text \<open>The constants of \<^verbatim>\<open>run_collision_simulation\<close>.\<close>

definition sim_config :: config where
  "sim_config = \<lparr> WIDTH = 800, HEIGHT = 600, GRAVITY = (0, 250),
                   RESTITUTION = 85 / 100, FRICTION = 5 / 1000 \<rparr>"

text \<open>The constants of \<^verbatim>\<open>run_simulation_with_ui\<close>.\<close>

definition ui_config :: config where
  "ui_config = \<lparr> WIDTH = 800, HEIGHT = 600, GRAVITY = (0, 250),
                  RESTITUTION = 1, FRICTION = 1 / 1000 \<rparr>"




section \<open>The physics update of one ball\<close>

text \<open>
  \<^verbatim>\<open>run_collision_simulation\<close>, step 1: the acceleration is reset, gravity and the
  friction force are applied.
\<close>

definition apply_forces :: "config \<Rightarrow> ball \<Rightarrow> py_error + ball" where
  "apply_forces cfg b =
     (let b1 = b \<lparr> acceleration := (0, 0) \<rparr>;
          b2 = apply_force b1 (smul (GRAVITY cfg) (mass b1))
      in if length_squared (velocity b2) > 0
         then (case normalize (velocity b2) of
                 Inl e \<Rightarrow> Inl e
               | Inr n \<Rightarrow>
                   Inr (apply_force b2
                         (smul (smul (vneg n) (length_squared (velocity b2))) (FRICTION cfg))))
         else Inr b2)"

text \<open>\<^verbatim>\<open>run_simulation_with_ui\<close>: the friction force is applied above a threshold
  and is scaled by the radius.\<close>

definition apply_forces_ui :: "config \<Rightarrow> ball \<Rightarrow> py_error + ball" where
  "apply_forces_ui cfg b =
     (let b1 = b \<lparr> acceleration := (0, 0) \<rparr>;
          b2 = apply_force b1 (smul (GRAVITY cfg) (mass b1))
      in if length_squared (velocity b2) > 1 / 1000000
         then (case normalize (velocity b2) of
                 Inl e \<Rightarrow> Inl e
               | Inr n \<Rightarrow>
                   Inr (apply_force b2
                         (smul (smul (smul (vneg n) (length_squared (velocity b2)))
                                 (FRICTION cfg)) (radius b2))))
         else Inr b2)"

text \<open>
  \<^verbatim>\<open>run_collision_simulation\<close>, step 3: the wall collisions. Each axis is an
  \<^verbatim>\<open>if\<close>/\<^verbatim>\<open>elif\<close>; the clamped ball has its velocity component multiplied by
  \<^verbatim>\<open>-RESTITUTION\<close>.
\<close>

definition wall_x :: "config \<Rightarrow> ball \<Rightarrow> ball" where
  "wall_x cfg b =
     (if fst (position b) - radius b < 0
      then b \<lparr> position := (radius b, snd (position b)),
               velocity := (fst (velocity b) * - RESTITUTION cfg, snd (velocity b)) \<rparr>
      else if fst (position b) + radius b > WIDTH cfg
      then b \<lparr> position := (WIDTH cfg - radius b, snd (position b)),
               velocity := (fst (velocity b) * - RESTITUTION cfg, snd (velocity b)) \<rparr>
      else b)"

definition wall_y :: "config \<Rightarrow> ball \<Rightarrow> ball" where
  "wall_y cfg b =
     (if snd (position b) - radius b < 0
      then b \<lparr> position := (fst (position b), radius b),
               velocity := (fst (velocity b), snd (velocity b) * - RESTITUTION cfg) \<rparr>
      else if snd (position b) + radius b > HEIGHT cfg
      then b \<lparr> position := (fst (position b), HEIGHT cfg - radius b),
               velocity := (fst (velocity b), snd (velocity b) * - RESTITUTION cfg) \<rparr>
      else b)"

definition wall_collisions :: "config \<Rightarrow> ball \<Rightarrow> ball" where
  "wall_collisions cfg b = wall_y cfg (wall_x cfg b)"

text \<open>
  \<^verbatim>\<open>run_simulation_with_ui\<close>: the horizontal walls are as above; the top wall clamps
  to \<^verbatim>\<open>radius + 1\<close>, and the bottom wall reverses the velocity only when the ball moves
  downwards.
\<close>

definition wall_y_ui :: "config \<Rightarrow> ball \<Rightarrow> ball" where
  "wall_y_ui cfg b =
     (if snd (position b) - radius b < 0
      then b \<lparr> position := (fst (position b), radius b + 1),
               velocity := (fst (velocity b), snd (velocity b) * - RESTITUTION cfg) \<rparr>
      else if snd (position b) + radius b > HEIGHT cfg
      then (let b1 = b \<lparr> position := (fst (position b), HEIGHT cfg - radius b) \<rparr>
            in if snd (velocity b1) > 0
               then b1 \<lparr> velocity := (fst (velocity b1), snd (velocity b1) * - RESTITUTION cfg) \<rparr>
               else b1)
      else b)"

definition wall_collisions_ui :: "config \<Rightarrow> ball \<Rightarrow> ball" where
  "wall_collisions_ui cfg b = wall_y_ui cfg (wall_x cfg b)"

text \<open>
  The body of the physics loop for one ball: forces, \<^verbatim>\<open>ball.update(dt)\<close>, walls. The
  simulation loop has no handler, so an exception ends the program and the frame
  functions return the exception alone.
\<close>

definition physics_update :: "config \<Rightarrow> real \<Rightarrow> ball \<Rightarrow> py_error + ball" where
  "physics_update cfg dt b =
     (case apply_forces cfg b of
        Inl e \<Rightarrow> Inl e
      | Inr b1 \<Rightarrow>
          (case update b1 dt of
             (b2, Some e) \<Rightarrow> Inl e
           | (b2, None) \<Rightarrow> Inr (wall_collisions cfg b2)))"

definition physics_update_ui :: "config \<Rightarrow> real \<Rightarrow> ball \<Rightarrow> py_error + ball" where
  "physics_update_ui cfg dt b =
     (case apply_forces_ui cfg b of
        Inl e \<Rightarrow> Inl e
      | Inr b1 \<Rightarrow>
          (case update b1 dt of
             (b2, Some e) \<Rightarrow> Inl e
           | (b2, None) \<Rightarrow> Inr (wall_collisions_ui cfg b2)))"

section \<open>The collision of two balls\<close>

text \<open>
  The block \<^verbatim>\<open>Resolve Overlap\<close>: both balls are moved apart along the normal, each by
  its share of the inverse mass. The text is the same in both files; they differ in the
  guard around it.
\<close>

definition resolve_overlap ::
  "vec2 \<Rightarrow> real \<Rightarrow> real \<Rightarrow> ball \<Rightarrow> ball \<Rightarrow> py_error + ball \<times> ball" where
  "resolve_overlap normal overlap total_inv_mass a b =
     (case py_div (overlap * inv_mass a) total_inv_mass of
        Inl e \<Rightarrow> Inl e
      | Inr ka \<Rightarrow>
          (case py_div (overlap * inv_mass b) total_inv_mass of
             Inl e \<Rightarrow> Inl e
           | Inr kb \<Rightarrow>
               Inr (a \<lparr> position := vsub (position a) (smul normal ka) \<rparr>,
                    b \<lparr> position := vadd (position b) (smul normal kb) \<rparr>)))"

text \<open>The relative velocity of the pair along the normal.\<close>

definition vel_along_normal :: "vec2 \<Rightarrow> ball \<Rightarrow> ball \<Rightarrow> real" where
  "vel_along_normal normal a b = dot (vsub (velocity b) (velocity a)) normal"

text \<open>
  The block \<^verbatim>\<open>Collision Response\<close>: the impulse along the normal, applied only when
  the balls move towards each other. The result also tells whether the impulse was
  applied (\<^verbatim>\<open>run_simulation_with_ui\<close> counts these).
\<close>

definition collision_response ::
  "config \<Rightarrow> vec2 \<Rightarrow> real \<Rightarrow> ball \<Rightarrow> ball \<Rightarrow> py_error + ball \<times> ball \<times> bool" where
  "collision_response cfg normal total_inv_mass a b =
     (if vel_along_normal normal a b < 0
      then (case py_div (- (1 + RESTITUTION cfg) * vel_along_normal normal a b) total_inv_mass of
              Inl e \<Rightarrow> Inl e
            | Inr impulse_scalar \<Rightarrow>
                (let impulse_vec = smul normal impulse_scalar
                 in Inr (a \<lparr> velocity := vsub (velocity a) (smul impulse_vec (inv_mass a)) \<rparr>,
                         b \<lparr> velocity := vadd (velocity b) (smul impulse_vec (inv_mass b)) \<rparr>,
                         True)))
      else Inr (a, b, False))"

text \<open>The quantities of the detection: the vector from \<^verbatim>\<open>ball_a\<close> to \<^verbatim>\<open>ball_b\<close>, its
  squared length and the sum of the radii.\<close>

definition dist_vec :: "ball \<Rightarrow> ball \<Rightarrow> vec2" where
  "dist_vec a b = vsub (position b) (position a)"

definition dist_sq :: "ball \<Rightarrow> ball \<Rightarrow> real" where
  "dist_sq a b = length_squared (dist_vec a b)"

definition min_dist :: "ball \<Rightarrow> ball \<Rightarrow> real" where
  "min_dist a b = radius a + radius b"

text \<open>
  \<^verbatim>\<open>run_collision_simulation\<close>, step 4, for one pair: a collision is detected when
  \<^verbatim>\<open>dist_sq < min_dist_sq and dist_sq > 1e-6\<close>; a pair of two infinite masses is skipped
  by \<^verbatim>\<open>continue\<close>. (The tangent the source computes is never used.)
\<close>

definition detected :: "ball \<Rightarrow> ball \<Rightarrow> bool" where
  "detected a b = (dist_sq a b < min_dist a b * min_dist a b \<and> dist_sq a b > 1 / 1000000)"

definition collide :: "config \<Rightarrow> ball \<Rightarrow> ball \<Rightarrow> py_error + ball \<times> ball" where
  "collide cfg a b =
     (if detected a b
      then (let distance = sqrt (dist_sq a b)
            in case vdiv (dist_vec a b) distance of
                 Inl e \<Rightarrow> Inl e
               | Inr normal \<Rightarrow>
                   (let overlap = min_dist a b - distance;
                        total_inv_mass = inv_mass a + inv_mass b
                    in if total_inv_mass = 0 then Inr (a, b)
                       else (case resolve_overlap normal overlap total_inv_mass a b of
                               Inl e \<Rightarrow> Inl e
                             | Inr (a1, b1) \<Rightarrow>
                                 (case collision_response cfg normal total_inv_mass a1 b1 of
                                    Inl e \<Rightarrow> Inl e
                                  | Inr (a2, b2, hit) \<Rightarrow> Inr (a2, b2)))))
      else Inr (a, b))"

text \<open>
  \<^verbatim>\<open>run_simulation_with_ui\<close>, for its one pair: a collision is detected when
  \<^verbatim>\<open>0 < dist_sq < min_dist_sq\<close>; the overlap is resolved only when
  \<^verbatim>\<open>total_inv_mass > 0\<close>, and the collision response follows in either case. The third
  component is \<^verbatim>\<open>collision_count\<close>.
\<close>

definition detected_ui :: "ball \<Rightarrow> ball \<Rightarrow> bool" where
  "detected_ui a b = (0 < dist_sq a b \<and> dist_sq a b < min_dist a b * min_dist a b)"

definition collide_ui ::
  "config \<Rightarrow> ball \<times> ball \<times> nat \<Rightarrow> py_error + ball \<times> ball \<times> nat" where
  "collide_ui cfg s =
     (case s of (a, b, collision_count) \<Rightarrow>
        if detected_ui a b
        then (let distance = sqrt (dist_sq a b)
              in case vdiv (dist_vec a b) distance of
                   Inl e \<Rightarrow> Inl e
                 | Inr normal \<Rightarrow>
                     (let overlap = min_dist a b - distance;
                          total_inv_mass = inv_mass a + inv_mass b
                      in case (if total_inv_mass > 0
                               then resolve_overlap normal overlap total_inv_mass a b
                               else Inr (a, b)) of
                           Inl e \<Rightarrow> Inl e
                         | Inr (a1, b1) \<Rightarrow>
                             (case collision_response cfg normal total_inv_mass a1 b1 of
                                Inl e \<Rightarrow> Inl e
                              | Inr (a2, b2, hit) \<Rightarrow>
                                  Inr (a2, b2,
                                       if hit then collision_count + 1 else collision_count))))
        else Inr (a, b, collision_count))"

section \<open>One frame of each simulation\<close>

text \<open>The time step of a frame: \<^verbatim>\<open>min(clock.tick(60) / 1000.0, 0.05)\<close>, where the
  clock reports a number of milliseconds.\<close>

definition time_step :: "nat \<Rightarrow> real" where
  "time_step tick = min (real tick / 1000) (5 / 100)"

text \<open>
  \<^verbatim>\<open>run_collision_simulation\<close>: the physics loop over the list of balls. The ball that
  is being dragged (\<^verbatim>\<open>ball is dragging_ball\<close>, here its index in the list) is skipped.
\<close>

fun physics_loop ::
  "config \<Rightarrow> real \<Rightarrow> nat option \<Rightarrow> nat \<Rightarrow> ball list \<Rightarrow> py_error + ball list" where
  "physics_loop cfg dt dragging i [] = Inr []"
| "physics_loop cfg dt dragging i (b # bs) =
     (if dragging = Some i
      then (case physics_loop cfg dt dragging (Suc i) bs of
              Inl e \<Rightarrow> Inl e
            | Inr bs' \<Rightarrow> Inr (b # bs'))
      else (case physics_update cfg dt b of
              Inl e \<Rightarrow> Inl e
            | Inr b' \<Rightarrow>
                (case physics_loop cfg dt dragging (Suc i) bs of
                   Inl e \<Rightarrow> Inl e
                 | Inr bs' \<Rightarrow> Inr (b' # bs'))))"

text \<open>
  The collision of \<^verbatim>\<open>balls[i]\<close> and \<^verbatim>\<open>balls[j]\<close>, which mutates both list elements,
  and the two nested loops \<^verbatim>\<open>for i in range(len(balls))\<close>,
  \<^verbatim>\<open>for j in range(i + 1, len(balls))\<close>. The loops only produce indices inside the list.
\<close>

definition collide_at :: "config \<Rightarrow> nat \<Rightarrow> nat \<Rightarrow> ball list \<Rightarrow> py_error + ball list" where
  "collide_at cfg i j balls =
     (case collide cfg (balls ! i) (balls ! j) of
        Inl e \<Rightarrow> Inl e
      | Inr (a, b) \<Rightarrow> Inr (balls[i := a, j := b]))"

fun inner_loop :: "config \<Rightarrow> nat \<Rightarrow> nat list \<Rightarrow> ball list \<Rightarrow> py_error + ball list" where
  "inner_loop cfg i [] balls = Inr balls"
| "inner_loop cfg i (j # js) balls =
     (case collide_at cfg i j balls of
        Inl e \<Rightarrow> Inl e
      | Inr balls' \<Rightarrow> inner_loop cfg i js balls')"

fun outer_loop :: "config \<Rightarrow> nat list \<Rightarrow> ball list \<Rightarrow> py_error + ball list" where
  "outer_loop cfg [] balls = Inr balls"
| "outer_loop cfg (i # ks) balls =
     (case inner_loop cfg i [Suc i ..< length balls] balls of
        Inl e \<Rightarrow> Inl e
      | Inr balls' \<Rightarrow> outer_loop cfg ks balls')"

definition ball_ball_collisions :: "config \<Rightarrow> ball list \<Rightarrow> py_error + ball list" where
  "ball_ball_collisions cfg balls = outer_loop cfg [0 ..< length balls] balls"

text \<open>
  One pass of the \<^verbatim>\<open>while running\<close> loop of \<^verbatim>\<open>run_collision_simulation\<close>
  after the events: time step, physics update, collisions. The event handling at the
  start of a pass (the keys that end the run, and the pointer that grabs, moves and
  releases a ball) and the drawing at its end are not modelled; of the pointer's state
  only the ball that is being dragged enters the frame.
\<close>

definition frame :: "config \<Rightarrow> nat \<Rightarrow> nat option \<Rightarrow> ball list \<Rightarrow> py_error + ball list" where
  "frame cfg tick dragging balls =
     (case physics_loop cfg (time_step tick) dragging 0 balls of
        Inl e \<Rightarrow> Inl e
      | Inr balls1 \<Rightarrow> ball_ball_collisions cfg balls1)"

text \<open>A run is a sequence of frames; each frame reads the clock and the ball the
  pointer holds.\<close>

fun run_frames ::
  "config \<Rightarrow> (nat \<times> nat option) list \<Rightarrow> ball list \<Rightarrow> py_error + ball list" where
  "run_frames cfg [] balls = Inr balls"
| "run_frames cfg ((tick, dragging) # fs) balls =
     (case frame cfg tick dragging balls of
        Inl e \<Rightarrow> Inl e
      | Inr balls' \<Rightarrow> run_frames cfg fs balls')"

text \<open>
  One pass of the simulation loop of \<^verbatim>\<open>run_simulation_with_ui\<close>: its list holds
  exactly the two balls \<^verbatim>\<open>ball1\<close> and \<^verbatim>\<open>ball2\<close>, which are also \<^verbatim>\<open>ball_a\<close> and
  \<^verbatim>\<open>ball_b\<close> of the collision.
\<close>

definition frame_ui ::
  "config \<Rightarrow> nat \<Rightarrow> ball \<times> ball \<times> nat \<Rightarrow> py_error + ball \<times> ball \<times> nat" where
  "frame_ui cfg tick s =
     (case s of (ball1, ball2, collision_count) \<Rightarrow>
        (case physics_update_ui cfg (time_step tick) ball1 of
           Inl e \<Rightarrow> Inl e
         | Inr a \<Rightarrow>
             (case physics_update_ui cfg (time_step tick) ball2 of
                Inl e \<Rightarrow> Inl e
              | Inr b \<Rightarrow> collide_ui cfg (a, b, collision_count))))"

fun run_frames_ui ::
  "config \<Rightarrow> nat list \<Rightarrow> ball \<times> ball \<times> nat \<Rightarrow> py_error + ball \<times> ball \<times> nat" where
  "run_frames_ui cfg [] s = Inr s"
| "run_frames_ui cfg (tick # ticks) s =
     (case frame_ui cfg tick s of
        Inl e \<Rightarrow> Inl e
      | Inr s' \<Rightarrow> run_frames_ui cfg ticks s')"

section \<open>Quantities the properties are stated with\<close>

text \<open>The unit normal of a detected pair: \<^verbatim>\<open>dist_vec / distance\<close>.\<close>

definition contact_normal :: "ball \<Rightarrow> ball \<Rightarrow> vec2" where
  "contact_normal a b =
     (fst (dist_vec a b) / sqrt (dist_sq a b), snd (dist_vec a b) / sqrt (dist_sq a b))"

text \<open>The total momentum \<^verbatim>\<open>m1*v1 + m2*v2\<close> and the mass-weighted position
  \<^verbatim>\<open>m1*p1 + m2*p2\<close> of a pair.\<close>

definition momentum :: "ball \<Rightarrow> ball \<Rightarrow> vec2" where
  "momentum a b = vadd (smul (velocity a) (mass a)) (smul (velocity b) (mass b))"

definition weighted_position :: "ball \<Rightarrow> ball \<Rightarrow> vec2" where
  "weighted_position a b = vadd (smul (position a) (mass a)) (smul (position b) (mass b))"

text \<open>A ball lies inside the four walls.\<close>

definition in_bounds :: "config \<Rightarrow> ball \<Rightarrow> bool" where
  "in_bounds cfg b =
     (0 \<le> fst (position b) - radius b \<and> fst (position b) + radius b \<le> WIDTH cfg \<and>
      0 \<le> snd (position b) - radius b \<and> snd (position b) + radius b \<le> HEIGHT cfg)"



text \<open>An immovable ball at rest inside the walls.\<close>

definition still :: "config \<Rightarrow> ball \<Rightarrow> bool" where
  "still cfg b = (inv_mass b = 0 \<and> velocity b = (0, 0) \<and> in_bounds cfg b)"

section \<open>Concrete balls\<close>

text \<open>Balls on which the properties below are evaluated.\<close>

definition ball0 :: ball where
  "ball0 = \<lparr> position = (100, 100), velocity = (10, 0), acceleration = (0, 4),
             radius = 10, mass = 2, inv_mass = 1 / 2, color = (255, 0, 0) \<rparr>"

text \<open>Two unit balls of mass 1 that overlap and approach each other head-on, and the
  same two balls moving apart.\<close>

definition s1 :: ball where
  "s1 = \<lparr> position = (0, 0), velocity = (10, 0), acceleration = (0, 0),
           radius = 1, mass = 1, inv_mass = 1, color = (255, 0, 0) \<rparr>"

definition s2 :: ball where
  "s2 = \<lparr> position = (3 / 2, 0), velocity = (- 10, 0), acceleration = (0, 0),
           radius = 1, mass = 1, inv_mass = 1, color = (0, 0, 255) \<rparr>"

definition p1 :: ball where
  "p1 = s1 \<lparr> velocity := (- 10, 0) \<rparr>"

definition p2 :: ball where
  "p2 = s2 \<lparr> velocity := (10, 0) \<rparr>"

text \<open>Two overlapping balls of mass zero that approach each other.\<close>

definition w1 :: ball where
  "w1 = \<lparr> position = (200, 300), velocity = (50, 0), acceleration = (0, 0),
           radius = 25, mass = 0, inv_mass = 0, color = (255, 0, 0) \<rparr>"

definition w2 :: ball where
  "w2 = \<lparr> position = (230, 300), velocity = (- 50, 0), acceleration = (0, 0),
           radius = 25, mass = 0, inv_mass = 0, color = (0, 0, 255) \<rparr>"

text \<open>A ball past the left wall that already moves back to the right, and a ball of
  \<^verbatim>\<open>run_simulation_with_ui\<close> past the right and the bottom wall.\<close>

definition ball_left :: ball where
  "ball_left = \<lparr> position = (5, 300), velocity = (20, 0), acceleration = (0, 0),
                 radius = 10, mass = 1, inv_mass = 1, color = (0, 255, 0) \<rparr>"

definition ball_corner :: ball where
  "ball_corner = \<lparr> position = (790, 590), velocity = (30, 40), acceleration = (0, 0),
                   radius = 25, mass = 2, inv_mass = 1 / 2, color = (0, 255, 0) \<rparr>"

text \<open>A ball of mass 2 at rest in the middle of the screen, and an immovable ball at rest
  on the floor.\<close>

definition b3 :: ball where
  "b3 = \<lparr> position = (600, 300), velocity = (0, 0), acceleration = (0, 0),
           radius = 25, mass = 2, inv_mass = 1 / 2, color = (0, 0, 255) \<rparr>"

definition rock :: ball where
  "rock = \<lparr> position = (400, 575), velocity = (0, 0), acceleration = (0, 0),
             radius = 25, mass = 0, inv_mass = 0, color = (255, 0, 0) \<rparr>"

text \<open>A ball of mass 2 that overlaps the immovable ball and moves towards it.\<close>

definition mover :: ball where
  "mover = \<lparr> position = (440, 575), velocity = (- 40, 0), acceleration = (0, 0),
             radius = 25, mass = 2, inv_mass = 1 / 2, color = (0, 0, 255) \<rparr>"

section \<open>Properties of the Ball class\<close>

text \<open>
  Claim C4. \<^verbatim>\<open>update(dt)\<close> raises \<^verbatim>\<open>ValueError\<close> for a negative \<^verbatim>\<open>dt\<close> and leaves the
  ball as it was. For \<^verbatim>\<open>dt >= 0\<close> it returns normally; the new velocity is the old
  velocity plus \<^verbatim>\<open>acceleration * dt\<close>, the new position is the old position plus the
  \<^emph>\<open>new\<close> velocity times \<^verbatim>\<open>dt\<close>, and the acceleration and every other field are
  unchanged.
\<close>

theorem update_contract:
  "(dt < 0 \<longrightarrow> update b dt = (b, Some ValueError)) \<and>
   (0 \<le> dt \<longrightarrow>
      snd (update b dt) = None \<and>
      velocity (fst (update b dt)) =
        (fst (velocity b) + fst (acceleration b) * dt, snd (velocity b) + snd (acceleration b) * dt) \<and>
      position (fst (update b dt)) =
        (fst (position b) + fst (velocity (fst (update b dt))) * dt,
         snd (position b) + snd (velocity (fst (update b dt))) * dt) \<and>
      acceleration (fst (update b dt)) = acceleration b \<and>
      radius (fst (update b dt)) = radius b \<and>
      mass (fst (update b dt)) = mass b \<and>
      inv_mass (fst (update b dt)) = inv_mass b \<and>
      color (fst (update b dt)) = color b)"
  by (simp add: update_def Let_def vadd_def smul_def)

theorem update_contract_witness:
  "update ball0 (- 1) = (ball0, Some ValueError) \<and>
   snd (update ball0 (1 / 2)) = None \<and>
   velocity (fst (update ball0 (1 / 2))) = (10, 2) \<and>
   position (fst (update ball0 (1 / 2))) = (105, 101) \<and>
   acceleration (fst (update ball0 (1 / 2))) = (0, 4)"
  using update_contract [of "- 1" ball0] update_contract [of "1 / 2" ball0]
  by (simp add: ball0_def)


text \<open>The conversion to a float, on the values that pass \<^verbatim>\<open>isinstance\<close>; integers of
  the size the simulations use are far below the bound.\<close>

lemma float_int_bound_large: "1000000 < float_int_bound"
  by (simp add: float_int_bound_def)

lemma float_int_bound_small: "n \<le> 1000000 \<Longrightarrow> \<not> float_int_bound \<le> n"
  using float_int_bound_large by simp

lemma py_float_small: "\<bar>i\<bar> \<le> 1000000 \<Longrightarrow> py_float (PyInt i) = Inr (of_int i)"
  by (simp add: float_int_bound_small)

lemma py_float_numeric:
  "isinstance_int_float v \<Longrightarrow>
   py_float v = (if too_large v then Inl OverflowError else Inr (num v))"
  by (cases v) simp_all

text \<open>What the two constructors accept; a ball they build satisfies \<^const>\<open>ball_ok\<close>, and
  a ball of \<^verbatim>\<open>ballcollisiongemini.py\<close> is movable.\<close>

lemma Ball_init_ok:
  "Ball_init x y r c m vel acc = Inr b \<Longrightarrow> ball_ok b \<and> 0 < mass b \<and> 0 < inv_mass b"
  by (auto simp add: Ball_init_def ball_ok_def py_float_numeric split: if_splits)

lemma Ball_init_ui_ok: "Ball_init_ui x y r c m vel acc = Inr b \<Longrightarrow> ball_ok b"
  by (auto simp add: Ball_init_ui_def ball_ok_def py_float_numeric split: if_splits)

text \<open>The concrete balls are balls the constructors build.\<close>

lemma concrete_balls_init:
  "Ball_init (PyInt 100) (PyInt 100) (PyInt 10) (255, 0, 0) (PyInt 2) (10, 0) (0, 4) = Inr ball0"
  "Ball_init (PyInt 0) (PyInt 0) (PyInt 1) (255, 0, 0) (PyFloat 1) (10, 0) (0, 0) = Inr s1"
  "Ball_init (PyFloat (3 / 2)) (PyInt 0) (PyInt 1) (0, 0, 255) (PyFloat 1) (- 10, 0) (0, 0) = Inr s2"
  "Ball_init (PyInt 0) (PyInt 0) (PyInt 1) (255, 0, 0) (PyFloat 1) (- 10, 0) (0, 0) = Inr p1"
  "Ball_init (PyFloat (3 / 2)) (PyInt 0) (PyInt 1) (0, 0, 255) (PyFloat 1) (10, 0) (0, 0) = Inr p2"
  "Ball_init (PyInt 5) (PyInt 300) (PyInt 10) (0, 255, 0) (PyInt 1) (20, 0) (0, 0) = Inr ball_left"
  "Ball_init_ui (PyInt 790) (PyInt 590) (PyInt 25) (0, 255, 0) (PyInt 2) (30, 40) (0, 0)
     = Inr ball_corner"
  "Ball_init_ui (PyInt 600) (PyInt 300) (PyInt 25) (0, 0, 255) (PyInt 2) (0, 0) (0, 0) = Inr b3"
  "Ball_init_ui (PyInt 400) (PyInt 575) (PyInt 25) (255, 0, 0) (PyInt 0) (0, 0) (0, 0) = Inr rock"
  "Ball_init_ui (PyInt 440) (PyInt 575) (PyInt 25) (0, 0, 255) (PyInt 2) (- 40, 0) (0, 0)
     = Inr mover"
  by (simp_all add: Ball_init_def Ball_init_ui_def float_int_bound_small ball0_def s1_def s2_def
      p1_def p2_def ball_left_def ball_corner_def b3_def rock_def mover_def)




section \<open>Properties of the wall collisions\<close>

text \<open>
  Claim C5, as amended. A ball that is clamped on an axis has its velocity component on
  that axis multiplied by \<^verbatim>\<open>-RESTITUTION\<close> whatever its sign; a ball that is not clamped
  keeps it. The one exception is the bottom wall of \<^verbatim>\<open>run_simulation_with_ui\<close>, which
  multiplies the component only when it points downwards.
\<close>

theorem wall_velocity:
  "fst (velocity (wall_collisions cfg b)) =
     (if fst (position b) - radius b < 0 \<or> fst (position b) + radius b > WIDTH cfg
      then - RESTITUTION cfg * fst (velocity b) else fst (velocity b)) \<and>
   snd (velocity (wall_collisions cfg b)) =
     (if snd (position b) - radius b < 0 \<or> snd (position b) + radius b > HEIGHT cfg
      then - RESTITUTION cfg * snd (velocity b) else snd (velocity b)) \<and>
   fst (velocity (wall_collisions_ui cfg b)) =
     (if fst (position b) - radius b < 0 \<or> fst (position b) + radius b > WIDTH cfg
      then - RESTITUTION cfg * fst (velocity b) else fst (velocity b)) \<and>
   snd (velocity (wall_collisions_ui cfg b)) =
     (if snd (position b) - radius b < 0 then - RESTITUTION cfg * snd (velocity b)
      else if snd (position b) + radius b > HEIGHT cfg \<and> snd (velocity b) > 0
      then - RESTITUTION cfg * snd (velocity b) else snd (velocity b))"
  by (simp add: wall_collisions_def wall_collisions_ui_def wall_x_def wall_y_def wall_y_ui_def
      Let_def)

text \<open>Claim C5 as stated fails: a ball clamped at the left wall whose velocity already
  points to the right is reflected all the same, in both files.\<close>

theorem wall_velocity_counterexample:
  "fst (position ball_left) - radius ball_left < 0 \<and> 0 < fst (velocity ball_left) \<and>
   fst (position (wall_collisions sim_config ball_left)) = radius ball_left \<and>
   fst (velocity ball_left) = 20 \<and>
   fst (velocity (wall_collisions sim_config ball_left)) = - 17 \<and>
   fst (velocity (wall_collisions_ui ui_config ball_left)) = - 20"
  by (simp add: wall_collisions_def wall_collisions_ui_def wall_x_def wall_y_def wall_y_ui_def
      ball_left_def sim_config_def ui_config_def)




section \<open>Properties of the collision of two balls\<close>

subsection \<open>The collision, unfolded\<close>

lemma vdiv_normal:
  "0 < dist_sq a b \<Longrightarrow> vdiv (dist_vec a b) (sqrt (dist_sq a b)) = Inr (contact_normal a b)"
  by (simp add: vdiv_def contact_normal_def)

lemma normal_unit:
  assumes "0 < dist_sq a b"
  shows "dot (contact_normal a b) (contact_normal a b) = 1"
proof -
  let ?d = "sqrt (dist_sq a b)"
  have d: "?d * ?d = dist_sq a b" using assms by simp
  have "dot (contact_normal a b) (contact_normal a b) =
        (fst (dist_vec a b) * fst (dist_vec a b) + snd (dist_vec a b) * snd (dist_vec a b)) / (?d * ?d)"
    by (simp add: dot_def contact_normal_def add_divide_distrib)
  also have "\<dots> = dist_sq a b / (?d * ?d)"
    by (simp add: dist_sq_def length_squared_def)
  finally show ?thesis using assms d by simp
qed

lemma resolve_overlap_ok:
  "t \<noteq> 0 \<Longrightarrow>
   resolve_overlap n ov t a b =
     Inr (a \<lparr> position := vsub (position a) (smul n (ov * inv_mass a / t)) \<rparr>,
          b \<lparr> position := vadd (position b) (smul n (ov * inv_mass b / t)) \<rparr>)"
  by (simp add: resolve_overlap_def py_div_def)

lemma collision_response_closing:
  "t \<noteq> 0 \<Longrightarrow> vel_along_normal n a b < 0 \<Longrightarrow>
   collision_response cfg n t a b =
     Inr (a \<lparr> velocity := vsub (velocity a)
                  (smul (smul n (- (1 + RESTITUTION cfg) * vel_along_normal n a b / t)) (inv_mass a)) \<rparr>,
          b \<lparr> velocity := vadd (velocity b)
                  (smul (smul n (- (1 + RESTITUTION cfg) * vel_along_normal n a b / t)) (inv_mass b)) \<rparr>,
          True)"
  by (simp add: collision_response_def py_div_def Let_def)

lemma collision_response_separating:
  "0 \<le> vel_along_normal n a b \<Longrightarrow> collision_response cfg n t a b = Inr (a, b, False)"
  by (simp add: collision_response_def)

lemma collision_response_zero:
  "vel_along_normal n a b < 0 \<Longrightarrow> collision_response cfg n 0 a b = Inl ZeroDivisionError"
  by (simp add: collision_response_def py_div_def)

lemma vel_along_normal_position [simp]:
  "vel_along_normal n (a \<lparr> position := p \<rparr>) (b \<lparr> position := q \<rparr>) = vel_along_normal n a b"
  by (simp add: vel_along_normal_def)

lemma detected_pos: "detected a b \<Longrightarrow> 0 < dist_sq a b"
  by (simp add: detected_def)

lemma detected_ui_pos: "detected_ui a b \<Longrightarrow> 0 < dist_sq a b"
  by (simp add: detected_ui_def)

lemma collide_not_detected: "\<not> detected a b \<Longrightarrow> collide cfg a b = Inr (a, b)"
  by (simp add: collide_def)

lemma collide_ui_not_detected: "\<not> detected_ui a b \<Longrightarrow> collide_ui cfg (a, b, k) = Inr (a, b, k)"
  by (simp add: collide_ui_def)

lemma collide_detected:
  assumes "detected a b"
  shows "collide cfg a b =
     (if inv_mass a + inv_mass b = 0 then Inr (a, b)
      else if vel_along_normal (contact_normal a b) a b < 0
      then Inr (a \<lparr> position := vsub (position a) (smul (contact_normal a b)
                       ((min_dist a b - sqrt (dist_sq a b)) * inv_mass a / (inv_mass a + inv_mass b))),
                   velocity := vsub (velocity a)
                     (smul (smul (contact_normal a b)
                        (- (1 + RESTITUTION cfg) * vel_along_normal (contact_normal a b) a b
                           / (inv_mass a + inv_mass b))) (inv_mass a)) \<rparr>,
                b \<lparr> position := vadd (position b) (smul (contact_normal a b)
                       ((min_dist a b - sqrt (dist_sq a b)) * inv_mass b / (inv_mass a + inv_mass b))),
                   velocity := vadd (velocity b)
                     (smul (smul (contact_normal a b)
                        (- (1 + RESTITUTION cfg) * vel_along_normal (contact_normal a b) a b
                           / (inv_mass a + inv_mass b))) (inv_mass b)) \<rparr>)
      else Inr (a \<lparr> position := vsub (position a) (smul (contact_normal a b)
                       ((min_dist a b - sqrt (dist_sq a b)) * inv_mass a / (inv_mass a + inv_mass b))) \<rparr>,
                b \<lparr> position := vadd (position b) (smul (contact_normal a b)
                       ((min_dist a b - sqrt (dist_sq a b)) * inv_mass b / (inv_mass a + inv_mass b))) \<rparr>))"
  using assms detected_pos [OF assms]
  by (simp add: collide_def Let_def vdiv_normal resolve_overlap_ok collision_response_closing
      collision_response_separating)

lemma collide_ui_detected:
  assumes "detected_ui a b" "inv_mass a + inv_mass b > 0"
  shows "collide_ui cfg (a, b, k) =
     (if vel_along_normal (contact_normal a b) a b < 0
      then Inr (a \<lparr> position := vsub (position a) (smul (contact_normal a b)
                       ((min_dist a b - sqrt (dist_sq a b)) * inv_mass a / (inv_mass a + inv_mass b))),
                   velocity := vsub (velocity a)
                     (smul (smul (contact_normal a b)
                        (- (1 + RESTITUTION cfg) * vel_along_normal (contact_normal a b) a b
                           / (inv_mass a + inv_mass b))) (inv_mass a)) \<rparr>,
                b \<lparr> position := vadd (position b) (smul (contact_normal a b)
                       ((min_dist a b - sqrt (dist_sq a b)) * inv_mass b / (inv_mass a + inv_mass b))),
                   velocity := vadd (velocity b)
                     (smul (smul (contact_normal a b)
                        (- (1 + RESTITUTION cfg) * vel_along_normal (contact_normal a b) a b
                           / (inv_mass a + inv_mass b))) (inv_mass b)) \<rparr>, k + 1)
      else Inr (a \<lparr> position := vsub (position a) (smul (contact_normal a b)
                       ((min_dist a b - sqrt (dist_sq a b)) * inv_mass a / (inv_mass a + inv_mass b))) \<rparr>,
                b \<lparr> position := vadd (position b) (smul (contact_normal a b)
                       ((min_dist a b - sqrt (dist_sq a b)) * inv_mass b / (inv_mass a + inv_mass b))) \<rparr>, k))"
  using assms detected_ui_pos [OF assms(1)]
  by (simp add: collide_ui_def Let_def vdiv_normal resolve_overlap_ok collision_response_closing
      collision_response_separating)

lemma collide_ui_detected_immovable:
  assumes "detected_ui a b" "inv_mass a + inv_mass b = 0"
  shows "collide_ui cfg (a, b, k) =
     (if vel_along_normal (contact_normal a b) a b < 0 then Inl ZeroDivisionError
      else Inr (a, b, k))"
  using assms detected_ui_pos [OF assms(1)]
  by (simp add: collide_ui_def Let_def vdiv_normal collision_response_zero
      collision_response_separating)

lemma finite_mass_total:
  "ball_ok a \<Longrightarrow> ball_ok b \<Longrightarrow> 0 < mass a \<Longrightarrow> 0 < mass b \<Longrightarrow> 0 < inv_mass a + inv_mass b"
  by (simp add: ball_ok_def add_pos_pos)

subsection \<open>The collisions of the concrete balls\<close>

lemma sqrt_9_4: "sqrt (9 / 4) = 3 / 2"
  by (rule real_sqrt_unique) (simp_all add: power2_eq_square)

lemma sqrt_900: "sqrt 900 = 30"
  by (rule real_sqrt_unique) (simp_all add: power2_eq_square)

lemmas eval_defs = collide_def collide_ui_def detected_def detected_ui_def dist_sq_def dist_vec_def
  min_dist_def length_squared_def vsub_def vadd_def smul_def dot_def vdiv_def py_div_def
  resolve_overlap_def collision_response_def vel_along_normal_def Let_def
  sim_config_def ui_config_def contact_normal_def

lemma s_detected: "detected s1 s2" "detected_ui s1 s2" "detected p1 p2" "detected_ui p1 p2"
  by (simp_all add: eval_defs s1_def s2_def p1_def p2_def)

lemma s_normal: "contact_normal s1 s2 = (1, 0)" "contact_normal p1 p2 = (1, 0)"
  by (simp_all add: eval_defs s1_def s2_def p1_def p2_def sqrt_9_4)

lemma s_ok: "ball_ok s1" "ball_ok s2" "ball_ok p1" "ball_ok p2"
  by (simp_all add: ball_ok_def s1_def s2_def p1_def p2_def)

lemma s_collide_ui:
  "collide_ui ui_config (s1, s2, 0) =
     Inr (s1 \<lparr> position := (- 1 / 4, 0), velocity := (- 10, 0) \<rparr>,
          s2 \<lparr> position := (7 / 4, 0), velocity := (10, 0) \<rparr>, 1)"
  by (simp add: eval_defs s1_def s2_def sqrt_9_4)

lemma s_collide:
  "collide sim_config s1 s2 =
     Inr (s1 \<lparr> position := (- 1 / 4, 0), velocity := (- 17 / 2, 0) \<rparr>,
          s2 \<lparr> position := (7 / 4, 0), velocity := (17 / 2, 0) \<rparr>)"
  by (simp add: eval_defs s1_def s2_def sqrt_9_4)

lemma p_collide:
  "collide sim_config p1 p2 =
     Inr (p1 \<lparr> position := (- 1 / 4, 0) \<rparr>, p2 \<lparr> position := (7 / 4, 0) \<rparr>)"
  by (simp add: eval_defs s1_def s2_def p1_def p2_def sqrt_9_4)

lemma p_collide_ui:
  "collide_ui ui_config (p1, p2, 0) =
     Inr (p1 \<lparr> position := (- 1 / 4, 0) \<rparr>, p2 \<lparr> position := (7 / 4, 0) \<rparr>, 0)"
  by (simp add: eval_defs s1_def s2_def p1_def p2_def sqrt_9_4)

subsection \<open>Momentum\<close>

lemma impulse_cancel:
  assumes "ia * ma = 1" "ib * mb = 1"
  shows "(va - n * j * ia) * ma + (vb + n * j * ib) * mb = va * ma + vb * (mb::real)"
proof -
  have "(va - n * j * ia) * ma + (vb + n * j * ib) * mb =
        va * ma + vb * mb - n * j * (ia * ma) + n * j * (ib * mb)"
    by (simp add: algebra_simps)
  then show ?thesis using assms by simp
qed

lemma momentum_impulse:
  assumes "inv_mass a * mass a = 1" "inv_mass b * mass b = 1"
  shows "momentum (a \<lparr> position := p, velocity := vsub (velocity a) (smul (smul n j) (inv_mass a)) \<rparr>)
                  (b \<lparr> position := q, velocity := vadd (velocity b) (smul (smul n j) (inv_mass b)) \<rparr>)
         = momentum a b"
  by (simp add: momentum_def vadd_def vsub_def smul_def impulse_cancel [OF assms])

lemma momentum_position [simp]:
  "momentum (a \<lparr> position := p \<rparr>) (b \<lparr> position := q \<rparr>) = momentum a b"
  by (simp add: momentum_def)

text \<open>
  Claim C1. The collision of two balls of finite (positive) mass returns normally and
  leaves the total momentum \<^verbatim>\<open>m1*v1 + m2*v2\<close> as it was, in both files. This holds for
  every coefficient of restitution, so in particular for \<^verbatim>\<open>RESTITUTION = 1.0\<close>, and
  whether or not the pair is detected as colliding.
\<close>

theorem momentum_conserved:
  assumes "ball_ok a" "ball_ok b" "0 < mass a" "0 < mass b"
  shows "(\<exists>a' b'. collide cfg a b = Inr (a', b') \<and> mass a' = mass a \<and> mass b' = mass b \<and>
            momentum a' b' = momentum a b) \<and>
         (\<exists>a' b' k'. collide_ui cfg (a, b, k) = Inr (a', b', k') \<and> mass a' = mass a \<and>
            mass b' = mass b \<and> momentum a' b' = momentum a b)"
proof -
  have t: "0 < inv_mass a + inv_mass b" using assms by (rule finite_mass_total)
  have ia: "inv_mass a * mass a = 1" and ib: "inv_mass b * mass b = 1"
    using assms by (simp_all add: ball_ok_def)
  note imp = momentum_impulse [OF ia ib]
  have 1: "\<exists>a' b'. collide cfg a b = Inr (a', b') \<and> mass a' = mass a \<and> mass b' = mass b \<and>
            momentum a' b' = momentum a b"
  proof (cases "detected a b")
    case True
    show ?thesis using t
      by (simp add: collide_detected [OF True] imp)
  next
    case False
    then show ?thesis by (simp add: collide_not_detected)
  qed
  have 2: "\<exists>a' b' k'. collide_ui cfg (a, b, k) = Inr (a', b', k') \<and> mass a' = mass a \<and>
            mass b' = mass b \<and> momentum a' b' = momentum a b"
  proof (cases "detected_ui a b")
    case True
    show ?thesis
      by (simp add: collide_ui_detected [OF True t] imp)
  next
    case False
    then show ?thesis by (simp add: collide_ui_not_detected)
  qed
  from 1 2 show ?thesis by blast
qed

text \<open>The two unit balls of mass 1 that meet head-on with \<^verbatim>\<open>RESTITUTION = 1.0\<close>
  exchange their velocities; the momentum is zero before and after.\<close>

theorem momentum_conserved_witness:
  "ball_ok s1 \<and> ball_ok s2 \<and> 0 < mass s1 \<and> 0 < mass s2 \<and> RESTITUTION ui_config = 1 \<and>
   detected_ui s1 s2 \<and>
   (\<exists>a' b' k'. collide_ui ui_config (s1, s2, 0) = Inr (a', b', k') \<and>
      velocity a' = (- 10, 0) \<and> velocity b' = (10, 0) \<and>
      momentum a' b' = momentum s1 s2) \<and>
   momentum s1 s2 = (0, 0)"
  using momentum_conserved [OF s_ok(1) s_ok(2), of ui_config 0]
  by (simp add: s_ok s_detected s_collide_ui)
     (simp add: s1_def s2_def ui_config_def momentum_def vadd_def smul_def)

subsection \<open>Restitution\<close>

lemma impulse_along_normal_aux:
  "vel_along_normal n
     (a \<lparr> position := p, velocity := vsub (velocity a) (smul (smul n k) (inv_mass a)) \<rparr>)
     (b \<lparr> position := q, velocity := vadd (velocity b) (smul (smul n k) (inv_mass b)) \<rparr>)
   = vel_along_normal n a b + k * (inv_mass a + inv_mass b) * dot n n"
  by (simp add: vel_along_normal_def dot_def vadd_def vsub_def smul_def algebra_simps)

lemma impulse_along_normal:
  assumes "dot n n = 1" "inv_mass a + inv_mass b \<noteq> 0"
  shows "vel_along_normal n
           (a \<lparr> position := p, velocity := vsub (velocity a)
                 (smul (smul n (c / (inv_mass a + inv_mass b))) (inv_mass a)) \<rparr>)
           (b \<lparr> position := q, velocity := vadd (velocity b)
                 (smul (smul n (c / (inv_mass a + inv_mass b))) (inv_mass b)) \<rparr>)
         = vel_along_normal n a b + c"
  using assms by (simp add: impulse_along_normal_aux)

lemma restitution_post:
  fixes v :: real
  assumes "w = v + - (1 + e) * v" "0 \<le> e"
  shows "w = - e * v \<and> \<bar>w\<bar> \<le> e * \<bar>v\<bar>"
proof -
  have "w = - e * v" using assms(1) by (simp add: algebra_simps)
  then show ?thesis using assms(2) by (simp add: abs_mult)
qed

text \<open>A detected pair is resolved, that is, the impulse is applied to it, exactly when its
  relative velocity along the normal is negative: this is the guard
  \<^verbatim>\<open>if vel_along_normal < 0\<close> of the source, and the flag of \<^const>\<open>collision_response\<close>
  that \<^verbatim>\<open>run_simulation_with_ui\<close> counts.\<close>

lemma collision_response_flag:
  "collision_response cfg n t a b = Inr (a', b', hit) \<Longrightarrow> hit = (vel_along_normal n a b < 0)"
  by (auto simp add: collision_response_def Let_def split: if_splits sum.splits)

text \<open>
  Claim C2. For a detected pair that is resolved (its relative velocity along the
  contact normal is negative at detection, so the impulse is applied), with a restitution
  in \<^verbatim>\<open>[0, 1]\<close> and \<^verbatim>\<open>invMassA + invMassB > 0\<close>, the collision returns normally and the
  magnitude of the relative velocity along that normal afterwards is at most
  \<^verbatim>\<open>RESTITUTION\<close> times the magnitude before; the velocity itself is \<^verbatim>\<open>-RESTITUTION\<close>
  times the one before. In \<^verbatim>\<open>run_simulation_with_ui\<close> the pair is counted as a
  collision.
\<close>

theorem restitution_bound:
  assumes "inv_mass a + inv_mass b > 0"
    and "0 \<le> RESTITUTION cfg" and "RESTITUTION cfg \<le> 1"
    and "vel_along_normal (contact_normal a b) a b < 0"
  shows "(detected a b \<longrightarrow>
           (\<exists>a' b'. collide cfg a b = Inr (a', b') \<and>
              vel_along_normal (contact_normal a b) a' b' =
                - RESTITUTION cfg * vel_along_normal (contact_normal a b) a b \<and>
              \<bar>vel_along_normal (contact_normal a b) a' b'\<bar> \<le>
                RESTITUTION cfg * \<bar>vel_along_normal (contact_normal a b) a b\<bar>)) \<and>
         (detected_ui a b \<longrightarrow>
           (\<exists>a' b'. collide_ui cfg (a, b, k) = Inr (a', b', k + 1) \<and>
              vel_along_normal (contact_normal a b) a' b' =
                - RESTITUTION cfg * vel_along_normal (contact_normal a b) a b \<and>
              \<bar>vel_along_normal (contact_normal a b) a' b'\<bar> \<le>
                RESTITUTION cfg * \<bar>vel_along_normal (contact_normal a b) a b\<bar>))"
proof -
  let ?n = "contact_normal a b"
  let ?v = "vel_along_normal ?n a b"
  let ?t = "inv_mass a + inv_mass b"
  let ?c = "- (1 + RESTITUTION cfg) * ?v"
  define a' where "a' = a \<lparr> position := vsub (position a) (smul ?n
                       ((min_dist a b - sqrt (dist_sq a b)) * inv_mass a / ?t)),
                   velocity := vsub (velocity a) (smul (smul ?n (?c / ?t)) (inv_mass a)) \<rparr>"
  define b' where "b' = b \<lparr> position := vadd (position b) (smul ?n
                       ((min_dist a b - sqrt (dist_sq a b)) * inv_mass b / ?t)),
                   velocity := vadd (velocity b) (smul (smul ?n (?c / ?t)) (inv_mass b)) \<rparr>"
  have t: "?t \<noteq> 0" using assms(1) by simp
  have post: "dot ?n ?n = 1 \<Longrightarrow>
     vel_along_normal ?n a' b' = - RESTITUTION cfg * ?v \<and>
     \<bar>vel_along_normal ?n a' b'\<bar> \<le> RESTITUTION cfg * \<bar>?v\<bar>"
    unfolding a'_def b'_def
    by (rule restitution_post [OF impulse_along_normal [OF _ t] assms(2)])
  show ?thesis
  proof (intro conjI impI)
    assume d: "detected a b"
    have u: "dot ?n ?n = 1" using detected_pos [OF d] by (rule normal_unit)
    have "collide cfg a b = Inr (a', b')"
      using t assms(4) by (simp add: collide_detected [OF d] a'_def b'_def)
    with post [OF u]
    show "\<exists>a' b'. collide cfg a b = Inr (a', b') \<and>
              vel_along_normal ?n a' b' = - RESTITUTION cfg * ?v \<and>
              \<bar>vel_along_normal ?n a' b'\<bar> \<le> RESTITUTION cfg * \<bar>?v\<bar>"
      by blast
  next
    assume d: "detected_ui a b"
    have u: "dot ?n ?n = 1" using detected_ui_pos [OF d] by (rule normal_unit)
    have "collide_ui cfg (a, b, k) = Inr (a', b', k + 1)"
      using assms(4) by (simp add: collide_ui_detected [OF d assms(1)] a'_def b'_def)
    with post [OF u]
    show "\<exists>a' b'. collide_ui cfg (a, b, k) = Inr (a', b', k + 1) \<and>
              vel_along_normal ?n a' b' = - RESTITUTION cfg * ?v \<and>
              \<bar>vel_along_normal ?n a' b'\<bar> \<le> RESTITUTION cfg * \<bar>?v\<bar>"
      by blast
  qed
qed

text \<open>With \<^verbatim>\<open>RESTITUTION = 0.85\<close> the two balls that approach at relative speed 20
  leave at relative speed 17; with \<^verbatim>\<open>RESTITUTION = 1.0\<close> they leave at relative speed
  20 and the collision is counted.\<close>

theorem restitution_bound_witness:
  "inv_mass s1 + inv_mass s2 > 0 \<and> 0 \<le> RESTITUTION sim_config \<and> RESTITUTION sim_config \<le> 1 \<and>
   0 \<le> RESTITUTION ui_config \<and> RESTITUTION ui_config \<le> 1 \<and>
   vel_along_normal (contact_normal s1 s2) s1 s2 = - 20 \<and> detected s1 s2 \<and> detected_ui s1 s2 \<and>
   (\<exists>a' b'. collide sim_config s1 s2 = Inr (a', b') \<and>
      vel_along_normal (contact_normal s1 s2) a' b' = 17 \<and>
      \<bar>vel_along_normal (contact_normal s1 s2) a' b'\<bar> \<le>
        RESTITUTION sim_config * \<bar>vel_along_normal (contact_normal s1 s2) s1 s2\<bar>) \<and>
   (\<exists>a' b'. collide_ui ui_config (s1, s2, 0) = Inr (a', b', 1) \<and>
      vel_along_normal (contact_normal s1 s2) a' b' = 20 \<and>
      \<bar>vel_along_normal (contact_normal s1 s2) a' b'\<bar> \<le>
        RESTITUTION ui_config * \<bar>vel_along_normal (contact_normal s1 s2) s1 s2\<bar>)"
proof -
  have v: "vel_along_normal (contact_normal s1 s2) s1 s2 = - 20"
    unfolding s_normal by (simp add: vel_along_normal_def dot_def vsub_def s1_def s2_def)
  have m: "inv_mass s1 + inv_mass s2 > 0" by (simp add: s1_def s2_def)
  have h: "0 \<le> RESTITUTION sim_config" "RESTITUTION sim_config \<le> 1"
    by (simp_all add: sim_config_def)
  have hu: "0 \<le> RESTITUTION ui_config" "RESTITUTION ui_config \<le> 1"
    by (simp_all add: ui_config_def)
  have r: "RESTITUTION sim_config = 85 / 100" "RESTITUTION ui_config = 1"
    by (simp_all add: sim_config_def ui_config_def)
  from restitution_bound [OF m h, of 0] restitution_bound [OF m hu, of 0] v s_detected(1,2) m h hu
  show ?thesis by (simp add: r)
qed

subsection \<open>Pairs that move apart\<close>

text \<open>
  Claim C7. On a detected pair whose relative velocity along the contact normal is not
  negative, the collision returns normally and changes nothing but, possibly, the two
  positions: both velocities are as before (and \<^verbatim>\<open>collision_count\<close> is not
  incremented).
\<close>

theorem separating_pair_keeps_velocities:
  assumes "0 \<le> vel_along_normal (contact_normal a b) a b"
  shows "(detected a b \<longrightarrow>
           (\<exists>a' b'. collide cfg a b = Inr (a', b') \<and>
              a' = a \<lparr> position := position a' \<rparr> \<and> b' = b \<lparr> position := position b' \<rparr> \<and>
              velocity a' = velocity a \<and> velocity b' = velocity b)) \<and>
         (detected_ui a b \<longrightarrow>
           (\<exists>a' b'. collide_ui cfg (a, b, k) = Inr (a', b', k) \<and>
              a' = a \<lparr> position := position a' \<rparr> \<and> b' = b \<lparr> position := position b' \<rparr> \<and>
              velocity a' = velocity a \<and> velocity b' = velocity b))"
proof (intro conjI impI)
  assume d: "detected a b"
  show "\<exists>a' b'. collide cfg a b = Inr (a', b') \<and>
              a' = a \<lparr> position := position a' \<rparr> \<and> b' = b \<lparr> position := position b' \<rparr> \<and>
              velocity a' = velocity a \<and> velocity b' = velocity b"
    using assms by (simp add: collide_detected [OF d])
next
  assume d: "detected_ui a b"
  have n: "vdiv (dist_vec a b) (sqrt (dist_sq a b)) = Inr (contact_normal a b)"
    using detected_ui_pos [OF d] by (rule vdiv_normal)
  show "\<exists>a' b'. collide_ui cfg (a, b, k) = Inr (a', b', k) \<and>
              a' = a \<lparr> position := position a' \<rparr> \<and> b' = b \<lparr> position := position b' \<rparr> \<and>
              velocity a' = velocity a \<and> velocity b' = velocity b"
    using assms d
    by (simp add: collide_ui_def Let_def n resolve_overlap_ok collision_response_separating)
qed

theorem separating_pair_keeps_velocities_witness:
  "vel_along_normal (contact_normal p1 p2) p1 p2 = 20 \<and> detected p1 p2 \<and> detected_ui p1 p2 \<and>
   (\<exists>a' b'. collide sim_config p1 p2 = Inr (a', b') \<and>
      position a' = (- 1 / 4, 0) \<and> position b' = (7 / 4, 0) \<and>
      velocity a' = velocity p1 \<and> velocity b' = velocity p2) \<and>
   (\<exists>a' b'. collide_ui ui_config (p1, p2, 0) = Inr (a', b', 0) \<and>
      velocity a' = velocity p1 \<and> velocity b' = velocity p2)"
proof -
  have v: "vel_along_normal (contact_normal p1 p2) p1 p2 = 20"
    unfolding s_normal
    by (simp add: vel_along_normal_def dot_def vsub_def p1_def p2_def s1_def s2_def)
  have h: "0 \<le> vel_along_normal (contact_normal p1 p2) p1 p2" by (simp add: v)
  from separating_pair_keeps_velocities [OF h, of sim_config 0]
    separating_pair_keeps_velocities [OF h, of ui_config 0] v
  show ?thesis by (simp add: s_detected p_collide p_collide_ui)
qed

subsection \<open>The separation of an overlapping pair\<close>

lemma share_cancel:
  assumes "ia * ma = 1" "ib * mb = 1"
  shows "(pa - n * (ov * ia) / t) * ma + (pb + n * (ov * ib) / t) * mb = pa * ma + pb * (mb::real)"
proof -
  have e1: "n * (ov * ia) / t = n * (ov / t) * ia" by simp
  have e2: "n * (ov * ib) / t = n * (ov / t) * ib" by simp
  show ?thesis unfolding e1 e2 by (rule impulse_cancel [OF assms])
qed

lemma weighted_position_share:
  assumes "inv_mass a * mass a = 1" "inv_mass b * mass b = 1"
  shows "weighted_position
           (a \<lparr> position := vsub (position a) (smul n (ov * inv_mass a / t)) \<rparr>)
           (b \<lparr> position := vadd (position b) (smul n (ov * inv_mass b / t)) \<rparr>)
         = weighted_position a b"
  by (simp add: weighted_position_def vadd_def vsub_def smul_def share_cancel [OF assms])

lemma weighted_position_share_velocity:
  assumes "inv_mass a * mass a = 1" "inv_mass b * mass b = 1"
  shows "weighted_position
           (a \<lparr> position := vsub (position a) (smul n (ov * inv_mass a / t)), velocity := u \<rparr>)
           (b \<lparr> position := vadd (position b) (smul n (ov * inv_mass b / t)), velocity := w \<rparr>)
         = weighted_position a b"
  by (simp add: weighted_position_def vadd_def vsub_def smul_def share_cancel [OF assms])

text \<open>
  Claim C10. For two balls of finite (positive) mass the block that resolves the overlap
  returns normally and keeps \<^verbatim>\<open>massA * positionA + massB * positionB\<close>, for every normal
  and overlap; so does the whole collision of the pair, in both files.
\<close>

theorem separation_preserves_centroid:
  assumes "ball_ok a" "ball_ok b" "0 < mass a" "0 < mass b"
  shows "(\<exists>a' b'. resolve_overlap n ov (inv_mass a + inv_mass b) a b = Inr (a', b') \<and>
            mass a' = mass a \<and> mass b' = mass b \<and>
            weighted_position a' b' = weighted_position a b) \<and>
         (\<exists>a' b'. collide cfg a b = Inr (a', b') \<and> mass a' = mass a \<and> mass b' = mass b \<and>
            weighted_position a' b' = weighted_position a b) \<and>
         (\<exists>a' b' k'. collide_ui cfg (a, b, k) = Inr (a', b', k') \<and> mass a' = mass a \<and>
            mass b' = mass b \<and> weighted_position a' b' = weighted_position a b)"
proof -
  have t: "0 < inv_mass a + inv_mass b" using assms by (rule finite_mass_total)
  have ia: "inv_mass a * mass a = 1" and ib: "inv_mass b * mass b = 1"
    using assms by (simp_all add: ball_ok_def)
  note sh = weighted_position_share [OF ia ib] weighted_position_share_velocity [OF ia ib]
  have 0: "\<exists>a' b'. resolve_overlap n ov (inv_mass a + inv_mass b) a b = Inr (a', b') \<and>
            mass a' = mass a \<and> mass b' = mass b \<and>
            weighted_position a' b' = weighted_position a b"
    using t by (simp add: resolve_overlap_ok sh)
  have 1: "\<exists>a' b'. collide cfg a b = Inr (a', b') \<and> mass a' = mass a \<and> mass b' = mass b \<and>
            weighted_position a' b' = weighted_position a b"
  proof (cases "detected a b")
    case True
    show ?thesis using t by (simp add: collide_detected [OF True] sh)
  next
    case False
    then show ?thesis by (simp add: collide_not_detected)
  qed
  have 2: "\<exists>a' b' k'. collide_ui cfg (a, b, k) = Inr (a', b', k') \<and> mass a' = mass a \<and>
            mass b' = mass b \<and> weighted_position a' b' = weighted_position a b"
  proof (cases "detected_ui a b")
    case True
    show ?thesis by (simp add: collide_ui_detected [OF True t] sh)
  next
    case False
    then show ?thesis by (simp add: collide_ui_not_detected)
  qed
  from 0 1 2 show ?thesis by blast
qed

text \<open>The two unit balls overlap by 1/2; each is moved by 1/4 and the weighted position
  stays \<^verbatim>\<open>(3/2, 0)\<close>.\<close>

theorem separation_preserves_centroid_witness:
  "ball_ok s1 \<and> ball_ok s2 \<and> 0 < mass s1 \<and> 0 < mass s2 \<and> detected s1 s2 \<and>
   (\<exists>a' b'. collide sim_config s1 s2 = Inr (a', b') \<and>
      position a' = (- 1 / 4, 0) \<and> position b' = (7 / 4, 0) \<and>
      weighted_position a' b' = weighted_position s1 s2) \<and>
   weighted_position s1 s2 = (3 / 2, 0)"
  using separation_preserves_centroid [OF s_ok(1) s_ok(2), of "(1, 0)" "1 / 2" sim_config 0]
  by (simp add: s_ok s_detected s_collide)
     (simp add: s1_def s2_def weighted_position_def vadd_def smul_def)

subsection \<open>Two immovable balls\<close>

text \<open>The two balls of mass zero are balls the constructor of
  \<^verbatim>\<open>ballcollisiongeminiwithui.py\<close> builds.\<close>

lemma w_init:
  "Ball_init_ui (PyInt 200) (PyInt 300) (PyInt 25) (255, 0, 0) (PyInt 0) (50, 0) (0, 0) = Inr w1"
  "Ball_init_ui (PyInt 230) (PyInt 300) (PyInt 25) (0, 0, 255) (PyInt 0) (- 50, 0) (0, 0) = Inr w2"
  by (simp_all add: Ball_init_ui_def float_int_bound_small w1_def w2_def)

text \<open>
  Claim C9 says that a detected pair of two immovable balls passes the velocity
  resolution without any error. In \<^verbatim>\<open>run_simulation_with_ui\<close> the guard
  \<^verbatim>\<open>total_inv_mass > 0\<close> covers the separation only: when the two balls approach each
  other, \<^verbatim>\<open>impulse_scalar /= total_inv_mass\<close> divides by zero.
\<close>

theorem immovable_pair_raises:
  "inv_mass w1 + inv_mass w2 = 0 \<and> detected_ui w1 w2 \<and>
   vel_along_normal (contact_normal w1 w2) w1 w2 = - 100 \<and>
   collide_ui ui_config (w1, w2, 0) = Inl ZeroDivisionError"
  by (simp add: eval_defs w1_def w2_def sqrt_900)

text \<open>Apart from that case a detected pair of two immovable balls is left as it is: in
  \<^verbatim>\<open>run_collision_simulation\<close> always (the pair is skipped), in
  \<^verbatim>\<open>run_simulation_with_ui\<close> when the balls do not approach each other.\<close>

lemma immovable_pair_unchanged:
  assumes "inv_mass a + inv_mass b = 0"
  shows "collide cfg a b = Inr (a, b)"
    and "0 \<le> vel_along_normal (contact_normal a b) a b \<Longrightarrow> collide_ui cfg (a, b, k) = Inr (a, b, k)"
proof -
  show "collide cfg a b = Inr (a, b)"
    using assms by (cases "detected a b") (simp_all add: collide_detected collide_not_detected)
  show "collide_ui cfg (a, b, k) = Inr (a, b, k)"
    if "0 \<le> vel_along_normal (contact_normal a b) a b"
    using assms that
    by (cases "detected_ui a b")
       (simp_all add: collide_ui_detected_immovable collide_ui_not_detected)
qed

section \<open>Immovable balls across frames\<close>

subsection \<open>One ball\<close>

lemma apply_force_immovable: "inv_mass b = 0 \<Longrightarrow> apply_force b f = b"
  by (simp add: apply_force_def)

lemma time_step_nonneg: "0 \<le> time_step tick"
  by (simp add: time_step_def)

lemma normalize_ok: "0 < length_squared v \<Longrightarrow> normalize v = Inr (fst v / sqrt (length_squared v), snd v / sqrt (length_squared v))"
  by (simp add: normalize_def Let_def)

lemma apply_forces_total: "\<exists>b'. apply_forces cfg b = Inr b' \<and> inv_mass b' = inv_mass b"
  by (simp add: apply_forces_def Let_def normalize_ok apply_force_def)

lemma apply_forces_ui_total: "\<exists>b'. apply_forces_ui cfg b = Inr b' \<and> inv_mass b' = inv_mass b"
proof (cases "length_squared (velocity b) > 1 / 1000000")
  case True
  then have "0 < length_squared (velocity b)" by simp
  then show ?thesis using True
    by (simp add: apply_forces_ui_def Let_def normalize_ok apply_force_def)
next
  case False
  then show ?thesis by (simp add: apply_forces_ui_def Let_def apply_force_def)
qed

lemma wall_inv_mass [simp]:
  "inv_mass (wall_collisions cfg b) = inv_mass b" "inv_mass (wall_collisions_ui cfg b) = inv_mass b"
  by (simp_all add: wall_collisions_def wall_collisions_ui_def wall_x_def wall_y_def wall_y_ui_def Let_def)

lemma update_ok: "0 \<le> dt \<Longrightarrow> \<exists>b'. update b dt = (b', None) \<and> inv_mass b' = inv_mass b"
  by (simp add: update_def Let_def)

lemma physics_update_total:
  assumes "0 \<le> dt"
  shows "\<exists>b'. physics_update cfg dt b = Inr b' \<and> inv_mass b' = inv_mass b"
proof -
  obtain b1 where 1: "apply_forces cfg b = Inr b1" "inv_mass b1 = inv_mass b"
    using apply_forces_total by blast
  obtain b2 where 2: "update b1 dt = (b2, None)" "inv_mass b2 = inv_mass b1"
    using update_ok [OF assms] by blast
  show ?thesis by (simp add: physics_update_def 1 2)
qed

lemma physics_update_ui_total:
  assumes "0 \<le> dt"
  shows "\<exists>b'. physics_update_ui cfg dt b = Inr b' \<and> inv_mass b' = inv_mass b"
proof -
  obtain b1 where 1: "apply_forces_ui cfg b = Inr b1" "inv_mass b1 = inv_mass b"
    using apply_forces_ui_total by blast
  obtain b2 where 2: "update b1 dt = (b2, None)" "inv_mass b2 = inv_mass b1"
    using update_ok [OF assms] by blast
  show ?thesis by (simp add: physics_update_ui_def 1 2)
qed

lemma wall_in_bounds:
  "in_bounds cfg b \<Longrightarrow> wall_collisions cfg b = b"
  "in_bounds cfg b \<Longrightarrow> wall_collisions_ui cfg b = b"
  by (simp_all add: in_bounds_def wall_collisions_def wall_collisions_ui_def wall_x_def wall_y_def wall_y_ui_def)

lemma still_reset: "still cfg b \<Longrightarrow> still cfg (b \<lparr> acceleration := (0, 0) \<rparr>)"
  by (simp add: still_def in_bounds_def)

lemma physics_update_still:
  assumes "still cfg b" "0 \<le> dt"
  shows "physics_update cfg dt b = Inr (b \<lparr> acceleration := (0, 0) \<rparr>)"
    and "physics_update_ui cfg dt b = Inr (b \<lparr> acceleration := (0, 0) \<rparr>)"
proof -
  have i: "inv_mass b = 0" and v: "velocity b = (0, 0)" and w: "in_bounds cfg b"
    using assms(1) by (simp_all add: still_def)
  have f: "apply_forces cfg b = Inr (b \<lparr> acceleration := (0, 0) \<rparr>)"
    "apply_forces_ui cfg b = Inr (b \<lparr> acceleration := (0, 0) \<rparr>)"
    using i v by (simp_all add: apply_forces_def apply_forces_ui_def Let_def apply_force_def length_squared_def)
  have u: "update (b \<lparr> acceleration := (0, 0) \<rparr>) dt = (b \<lparr> acceleration := (0, 0) \<rparr>, None)"
    using assms(2) v by (simp add: update_def Let_def vadd_def smul_def)
  have w': "in_bounds cfg (b \<lparr> acceleration := (0, 0) \<rparr>)" using w by (simp add: in_bounds_def)
  show "physics_update cfg dt b = Inr (b \<lparr> acceleration := (0, 0) \<rparr>)"
    by (simp add: physics_update_def f u wall_in_bounds [OF w'])
  show "physics_update_ui cfg dt b = Inr (b \<lparr> acceleration := (0, 0) \<rparr>)"
    by (simp add: physics_update_ui_def f u wall_in_bounds [OF w'])
qed

lemma collide_total: "\<exists>a' b'. collide cfg a b = Inr (a', b') \<and> inv_mass a' = inv_mass a \<and> inv_mass b' = inv_mass b"
  by (cases "detected a b") (simp_all add: collide_detected collide_not_detected)

lemma collide_immovable:
  assumes "collide cfg a b = Inr (a', b')"
  shows "inv_mass a = 0 \<Longrightarrow> a' = a" and "inv_mass b = 0 \<Longrightarrow> b' = b"
proof -
  show "a' = a" if "inv_mass a = 0"
    using assms that
    by (cases "detected a b")
       (auto simp add: collide_detected collide_not_detected vsub_def smul_def split: if_splits)
  show "b' = b" if "inv_mass b = 0"
    using assms that
    by (cases "detected a b")
       (auto simp add: collide_detected collide_not_detected vadd_def smul_def split: if_splits)
qed

lemma collide_ui_total:
  assumes "0 < inv_mass a + inv_mass b"
  shows "\<exists>a' b' k'. collide_ui cfg (a, b, k) = Inr (a', b', k') \<and> inv_mass a' = inv_mass a \<and> inv_mass b' = inv_mass b"
  by (cases "detected_ui a b") (simp_all add: collide_ui_detected assms collide_ui_not_detected)

lemma collide_ui_immovable:
  assumes "collide_ui cfg (a, b, k) = Inr (a', b', k')" "0 < inv_mass a + inv_mass b"
  shows "inv_mass a = 0 \<Longrightarrow> a' = a" and "inv_mass b = 0 \<Longrightarrow> b' = b"
proof -
  show "a' = a" if "inv_mass a = 0"
    using assms that
    by (cases "detected_ui a b")
       (auto simp add: collide_ui_detected collide_ui_not_detected vsub_def smul_def split: if_splits)
  show "b' = b" if "inv_mass b = 0"
    using assms that
    by (cases "detected_ui a b")
       (auto simp add: collide_ui_detected collide_ui_not_detected vadd_def smul_def split: if_splits)
qed

subsection \<open>The loops of a frame\<close>

lemma physics_loop_total:
  assumes "0 \<le> dt"
  shows "\<exists>bs'. physics_loop cfg dt dragging i bs = Inr bs' \<and> length bs' = length bs"
proof (induction bs arbitrary: i)
  case Nil
  show ?case by simp
next
  case (Cons b bs)
  obtain bs' where 1: "physics_loop cfg dt dragging (Suc i) bs = Inr bs'" "length bs' = length bs"
    using Cons.IH by blast
  obtain b' where 2: "physics_update cfg dt b = Inr b'"
    using physics_update_total [OF assms] by blast
  show ?case using 1 2 by (cases "dragging = Some i") simp_all
qed

text \<open>The loops of \<^verbatim>\<open>run_collision_simulation\<close> would keep an immovable ball at rest in
  the same way; its constructor never builds one (\<open>Ball_init_ok\<close>), so these facts
  are about the loops alone.\<close>

lemma physics_loop_still:
  assumes "0 \<le> dt"
  shows "physics_loop cfg dt dragging i bs = Inr bs' \<Longrightarrow> k < length bs \<Longrightarrow> still cfg (bs ! k) \<Longrightarrow>
         still cfg (bs' ! k) \<and> position (bs' ! k) = position (bs ! k)"
proof (induction bs arbitrary: i bs' k)
  case Nil
  then show ?case by simp
next
  case (Cons b bs)
  obtain cs where cs: "physics_loop cfg dt dragging (Suc i) bs = Inr cs"
    using physics_loop_total [OF assms] by blast
  obtain b' where b': "physics_update cfg dt b = Inr b'"
    using physics_update_total [OF assms] by blast
  have hd: "bs' = (if dragging = Some i then b else b') # cs"
    using Cons.prems(1) cs b' by (cases "dragging = Some i") simp_all
  show ?case
  proof (cases k)
    case 0
    then have s: "still cfg b" using Cons.prems(3) by simp
    have "b' = b \<lparr> acceleration := (0, 0) \<rparr>"
      using physics_update_still(1) [OF s assms, of ] b' by simp
    then show ?thesis using 0 hd s still_reset [OF s] by simp
  next
    case (Suc m)
    then show ?thesis using Cons.IH [OF cs, of m] Cons.prems(2,3) hd by simp
  qed
qed

lemma collide_at_total:
  "\<exists>balls'. collide_at cfg i j balls = Inr balls' \<and> length balls' = length balls \<and>
     (\<forall>k < length balls. inv_mass (balls ! k) = 0 \<longrightarrow> balls' ! k = balls ! k)"
proof -
  obtain a b where c: "collide cfg (balls ! i) (balls ! j) = Inr (a, b)"
    using collide_total by blast
  have r: "collide_at cfg i j balls = Inr (balls[i := a, j := b])"
    by (simp add: collide_at_def c)
  have "(balls[i := a, j := b]) ! k = balls ! k"
    if k: "k < length balls" and m: "inv_mass (balls ! k) = 0" for k
  proof -
    have "(balls[i := a, j := b]) ! k = (if k = j then b else if k = i then a else balls ! k)"
      using k by (simp add: nth_list_update)
    then show ?thesis using m collide_immovable [OF c] by auto
  qed
  then show ?thesis using r by simp
qed

lemma inner_loop_total:
  "\<exists>balls'. inner_loop cfg i js balls = Inr balls' \<and> length balls' = length balls \<and>
     (\<forall>k < length balls. inv_mass (balls ! k) = 0 \<longrightarrow> balls' ! k = balls ! k)"
proof (induction js arbitrary: balls)
  case Nil
  show ?case by simp
next
  case (Cons j js)
  obtain b1 where 1: "collide_at cfg i j balls = Inr b1" "length b1 = length balls"
    "\<forall>k < length balls. inv_mass (balls ! k) = 0 \<longrightarrow> b1 ! k = balls ! k"
    using collide_at_total by blast
  obtain b2 where 2: "inner_loop cfg i js b1 = Inr b2" "length b2 = length b1"
    "\<forall>k < length b1. inv_mass (b1 ! k) = 0 \<longrightarrow> b2 ! k = b1 ! k"
    using Cons.IH by blast
  show ?case using 1 2 by simp
qed

lemma outer_loop_total:
  "\<exists>balls'. outer_loop cfg ks balls = Inr balls' \<and> length balls' = length balls \<and>
     (\<forall>k < length balls. inv_mass (balls ! k) = 0 \<longrightarrow> balls' ! k = balls ! k)"
proof (induction ks arbitrary: balls)
  case Nil
  show ?case by simp
next
  case (Cons i ks)
  obtain b1 where 1: "inner_loop cfg i [Suc i ..< length balls] balls = Inr b1"
    "length b1 = length balls"
    "\<forall>k < length balls. inv_mass (balls ! k) = 0 \<longrightarrow> b1 ! k = balls ! k"
    using inner_loop_total by blast
  obtain b2 where 2: "outer_loop cfg ks b1 = Inr b2" "length b2 = length b1"
    "\<forall>k < length b1. inv_mass (b1 ! k) = 0 \<longrightarrow> b2 ! k = b1 ! k"
    using Cons.IH by blast
  show ?case using 1 2 by simp
qed

lemma frame_still:
  assumes "k < length balls" "still cfg (balls ! k)"
  shows "\<exists>balls'. frame cfg tick dragging balls = Inr balls' \<and> length balls' = length balls \<and>
           still cfg (balls' ! k) \<and> position (balls' ! k) = position (balls ! k)"
proof -
  obtain b1 where 1: "physics_loop cfg (time_step tick) dragging 0 balls = Inr b1"
    "length b1 = length balls"
    using physics_loop_total [OF time_step_nonneg] by blast
  have s1: "still cfg (b1 ! k) \<and> position (b1 ! k) = position (balls ! k)"
    using physics_loop_still [OF time_step_nonneg 1(1) assms] .
  obtain b2 where 2: "outer_loop cfg [0 ..< length b1] b1 = Inr b2" "length b2 = length b1"
    "\<forall>k < length b1. inv_mass (b1 ! k) = 0 \<longrightarrow> b2 ! k = b1 ! k"
    using outer_loop_total by blast
  have "b2 ! k = b1 ! k" using 2(3) assms(1) 1(2) s1 by (simp add: still_def)
  then show ?thesis using 1 2 s1 by (simp add: frame_def ball_ball_collisions_def)
qed

text \<open>A frame of \<^verbatim>\<open>run_collision_simulation\<close> never raises, and neither does a run.\<close>

lemma frame_total:
  "\<exists>balls'. frame cfg tick dragging balls = Inr balls' \<and> length balls' = length balls"
proof -
  obtain b1 where 1: "physics_loop cfg (time_step tick) dragging 0 balls = Inr b1"
    "length b1 = length balls"
    using physics_loop_total [OF time_step_nonneg] by blast
  obtain b2 where 2: "outer_loop cfg [0 ..< length b1] b1 = Inr b2" "length b2 = length b1"
    using outer_loop_total by blast
  show ?thesis using 1 2 by (simp add: frame_def ball_ball_collisions_def)
qed

lemma run_frames_total:
  "\<exists>balls'. run_frames cfg fs balls = Inr balls' \<and> length balls' = length balls"
proof (induction fs arbitrary: balls)
  case Nil
  show ?case by simp
next
  case (Cons f fs)
  obtain tick dragging where f: "f = (tick, dragging)" by (cases f)
  obtain b1 where 1: "frame cfg tick dragging balls = Inr b1" "length b1 = length balls"
    using frame_total by blast
  obtain b2 where 2: "run_frames cfg fs b1 = Inr b2" "length b2 = length b1"
    using Cons.IH by blast
  show ?case using 1 2 by (simp add: f)
qed

lemma run_frames_still:
  "k < length balls \<Longrightarrow> still cfg (balls ! k) \<Longrightarrow>
   \<exists>balls'. run_frames cfg fs balls = Inr balls' \<and> length balls' = length balls \<and>
      still cfg (balls' ! k) \<and> position (balls' ! k) = position (balls ! k)"
proof (induction fs arbitrary: balls)
  case Nil
  then show ?case by simp
next
  case (Cons f fs)
  obtain tick dragging where f: "f = (tick, dragging)" by (cases f)
  obtain b1 where 1: "frame cfg tick dragging balls = Inr b1" "length b1 = length balls"
    "still cfg (b1 ! k)" "position (b1 ! k) = position (balls ! k)"
    using frame_still [OF Cons.prems] by blast
  have k1: "k < length b1" using Cons.prems(1) 1(2) by simp
  obtain b2 where 2: "run_frames cfg fs b1 = Inr b2" "length b2 = length b1"
    "still cfg (b2 ! k)" "position (b2 ! k) = position (b1 ! k)"
    using Cons.IH [OF k1 1(3)] by blast
  show ?case using 1 2 by (simp add: f)
qed

lemma frame_ui_still:
  shows "still cfg a \<Longrightarrow> 0 < inv_mass b \<Longrightarrow>
         \<exists>a' b' k'. frame_ui cfg tick (a, b, k) = Inr (a', b', k') \<and> still cfg a' \<and>
            position a' = position a \<and> inv_mass b' = inv_mass b"
    and "0 < inv_mass a \<Longrightarrow> still cfg b \<Longrightarrow>
         \<exists>a' b' k'. frame_ui cfg tick (a, b, k) = Inr (a', b', k') \<and> still cfg b' \<and>
            position b' = position b \<and> inv_mass a' = inv_mass a"
proof -
  note dt = time_step_nonneg [of tick]
  show "\<exists>a' b' k'. frame_ui cfg tick (a, b, k) = Inr (a', b', k') \<and> still cfg a' \<and>
            position a' = position a \<and> inv_mass b' = inv_mass b"
    if s: "still cfg a" and m: "0 < inv_mass b"
  proof -
    let ?a1 = "a \<lparr> acceleration := (0, 0) \<rparr>"
    have 1: "physics_update_ui cfg (time_step tick) a = Inr ?a1"
      using physics_update_still(2) [OF s dt] .
    obtain b1 where 2: "physics_update_ui cfg (time_step tick) b = Inr b1" "inv_mass b1 = inv_mass b"
      using physics_update_ui_total [OF dt] by blast
    have i: "inv_mass ?a1 = 0" using s by (simp add: still_def)
    have t: "0 < inv_mass ?a1 + inv_mass b1" using i m 2(2) by simp
    obtain a' b' k' where 3: "collide_ui cfg (?a1, b1, k) = Inr (a', b', k')"
      "inv_mass b' = inv_mass b1"
      using collide_ui_total [OF t] by blast
    have "a' = ?a1" using collide_ui_immovable(1) [OF 3(1) t i] .
    then show ?thesis using 1 2 3 still_reset [OF s] by (simp add: frame_ui_def)
  qed
  show "\<exists>a' b' k'. frame_ui cfg tick (a, b, k) = Inr (a', b', k') \<and> still cfg b' \<and>
            position b' = position b \<and> inv_mass a' = inv_mass a"
    if m: "0 < inv_mass a" and s: "still cfg b"
  proof -
    let ?b1 = "b \<lparr> acceleration := (0, 0) \<rparr>"
    have 1: "physics_update_ui cfg (time_step tick) b = Inr ?b1"
      using physics_update_still(2) [OF s dt] .
    obtain a1 where 2: "physics_update_ui cfg (time_step tick) a = Inr a1" "inv_mass a1 = inv_mass a"
      using physics_update_ui_total [OF dt] by blast
    have i: "inv_mass ?b1 = 0" using s by (simp add: still_def)
    have t: "0 < inv_mass a1 + inv_mass ?b1" using i m 2(2) by simp
    obtain a' b' k' where 3: "collide_ui cfg (a1, ?b1, k) = Inr (a', b', k')"
      "inv_mass a' = inv_mass a1"
      using collide_ui_total [OF t] by blast
    have "b' = ?b1" using collide_ui_immovable(2) [OF 3(1) t i] .
    then show ?thesis using 1 2 3 still_reset [OF s] by (simp add: frame_ui_def)
  qed
qed

lemma run_frames_ui_still_a:
  "still cfg a \<Longrightarrow> 0 < inv_mass b \<Longrightarrow>
   \<exists>a' b' k'. run_frames_ui cfg ticks (a, b, k) = Inr (a', b', k') \<and> still cfg a' \<and>
      position a' = position a"
proof (induction ticks arbitrary: a b k)
  case Nil
  then show ?case by simp
next
  case (Cons tick ticks)
  obtain a1 b1 k1 where 1: "frame_ui cfg tick (a, b, k) = Inr (a1, b1, k1)" "still cfg a1"
    "position a1 = position a" "inv_mass b1 = inv_mass b"
    using frame_ui_still(1) [OF Cons.prems] by blast
  have m: "0 < inv_mass b1" using Cons.prems(2) 1(4) by simp
  obtain a2 b2 k2 where 2: "run_frames_ui cfg ticks (a1, b1, k1) = Inr (a2, b2, k2)"
    "still cfg a2" "position a2 = position a1"
    using Cons.IH [OF 1(2) m] by blast
  show ?case using 1 2 by simp
qed

lemma run_frames_ui_still_b:
  "0 < inv_mass a \<Longrightarrow> still cfg b \<Longrightarrow>
   \<exists>a' b' k'. run_frames_ui cfg ticks (a, b, k) = Inr (a', b', k') \<and> still cfg b' \<and>
      position b' = position b"
proof (induction ticks arbitrary: a b k)
  case Nil
  then show ?case by simp
next
  case (Cons tick ticks)
  obtain a1 b1 k1 where 1: "frame_ui cfg tick (a, b, k) = Inr (a1, b1, k1)" "still cfg b1"
    "position b1 = position b" "inv_mass a1 = inv_mass a"
    using frame_ui_still(2) [OF Cons.prems] by blast
  have m: "0 < inv_mass a1" using Cons.prems(1) 1(4) by simp
  obtain a2 b2 k2 where 2: "run_frames_ui cfg ticks (a1, b1, k1) = Inr (a2, b2, k2)"
    "still cfg b2" "position b2 = position b1"
    using Cons.IH [OF m 1(2)] by blast
  show ?case using 1 2 by simp
qed


text \<open>In \<^verbatim>\<open>run_simulation_with_ui\<close> the same holds of every collision and every run that
  returns, whatever the other ball is.\<close>

lemma collide_ui_immovable_any:
  assumes "collide_ui cfg (a, b, k) = Inr (a', b', k')"
  shows "inv_mass a = 0 \<Longrightarrow> a' = a" and "inv_mass b = 0 \<Longrightarrow> b' = b"
proof -
  have n: "detected_ui a b \<Longrightarrow>
      vdiv (dist_vec a b) (sqrt (dist_sq a b)) = Inr (contact_normal a b)"
    using detected_ui_pos by (rule vdiv_normal)
  show "a' = a" if "inv_mass a = 0"
    using assms that n
    by (cases "detected_ui a b")
       (auto simp add: collide_ui_def Let_def collision_response_def resolve_overlap_def
          py_div_def vsub_def smul_def split: if_splits)
  show "b' = b" if "inv_mass b = 0"
    using assms that n
    by (cases "detected_ui a b")
       (auto simp add: collide_ui_def Let_def collision_response_def resolve_overlap_def
          py_div_def vadd_def smul_def split: if_splits)
qed

lemma frame_ui_still_any:
  assumes "frame_ui cfg tick (a, b, k) = Inr (a', b', k')"
  shows "still cfg a \<Longrightarrow> still cfg a' \<and> position a' = position a"
    and "still cfg b \<Longrightarrow> still cfg b' \<and> position b' = position b"
proof -
  note dt = time_step_nonneg [of tick]
  obtain a1 where a1: "physics_update_ui cfg (time_step tick) a = Inr a1"
    using physics_update_ui_total [OF dt] by blast
  obtain b1 where b1: "physics_update_ui cfg (time_step tick) b = Inr b1"
    using physics_update_ui_total [OF dt] by blast
  have c: "collide_ui cfg (a1, b1, k) = Inr (a', b', k')"
    using assms by (simp add: frame_ui_def a1 b1)
  show "still cfg a' \<and> position a' = position a" if s: "still cfg a"
  proof -
    have e: "a1 = a \<lparr> acceleration := (0, 0) \<rparr>"
      using physics_update_still(2) [OF s dt] a1 by simp
    have "inv_mass a1 = 0" using s e by (simp add: still_def)
    then have "a' = a1" using collide_ui_immovable_any(1) [OF c] by simp
    then show ?thesis using e still_reset [OF s] by simp
  qed
  show "still cfg b' \<and> position b' = position b" if s: "still cfg b"
  proof -
    have e: "b1 = b \<lparr> acceleration := (0, 0) \<rparr>"
      using physics_update_still(2) [OF s dt] b1 by simp
    have "inv_mass b1 = 0" using s e by (simp add: still_def)
    then have "b' = b1" using collide_ui_immovable_any(2) [OF c] by simp
    then show ?thesis using e still_reset [OF s] by simp
  qed
qed

lemma run_frames_ui_still_any:
  "run_frames_ui cfg ticks (a, b, k) = Inr (a', b', k') \<Longrightarrow>
   (still cfg a \<longrightarrow> still cfg a' \<and> position a' = position a) \<and>
   (still cfg b \<longrightarrow> still cfg b' \<and> position b' = position b)"
proof (induction ticks arbitrary: a b k)
  case Nil
  then show ?case by simp
next
  case (Cons tick ticks)
  obtain a1 b1 k1 where f: "frame_ui cfg tick (a, b, k) = Inr (a1, b1, k1)"
    and r: "run_frames_ui cfg ticks (a1, b1, k1) = Inr (a', b', k')"
    using Cons.prems by (auto split: sum.splits)
  show ?case
    using frame_ui_still_any [OF f] Cons.IH [OF r] by auto
qed


text \<open>
  Claim C3, as amended. \<^verbatim>\<open>apply_force\<close> leaves a ball with \<^verbatim>\<open>inv_mass = 0\<close> as it is,
  and so does its collision with a movable ball (separation and impulse), which returns
  normally. \<^verbatim>\<open>update\<close> and the wall collisions do not read the mass. A ball with
  \<^verbatim>\<open>inv_mass = 0\<close> that is at rest inside the walls keeps its position and velocity over
  every sequence of frames that returns; when the other ball is movable, every sequence
  of frames returns. All this is about \<^verbatim>\<open>ballcollisiongeminiwithui.py\<close>: the constructor
  of \<^verbatim>\<open>ballcollisiongemini.py\<close> only builds movable balls.
\<close>

theorem immovable_body:
  "(inv_mass b = 0 \<longrightarrow> apply_force b f = b) \<and>
   (inv_mass a = 0 \<and> 0 < inv_mass b \<longrightarrow>
      (\<exists>a' b' k'. collide_ui cfg (a, b, k) = Inr (a', b', k') \<and> a' = a)) \<and>
   (0 < inv_mass a \<and> inv_mass b = 0 \<longrightarrow>
      (\<exists>a' b' k'. collide_ui cfg (a, b, k) = Inr (a', b', k') \<and> b' = b)) \<and>
   (still cfg a \<and> 0 < inv_mass b \<longrightarrow>
      (\<exists>a' b' k'. run_frames_ui cfg ticks (a, b, k) = Inr (a', b', k') \<and>
         position a' = position a \<and> velocity a' = velocity a)) \<and>
   (0 < inv_mass a \<and> still cfg b \<longrightarrow>
      (\<exists>a' b' k'. run_frames_ui cfg ticks (a, b, k) = Inr (a', b', k') \<and>
         position b' = position b \<and> velocity b' = velocity b)) \<and>
   (run_frames_ui cfg ticks (a, b, k) = Inr (a1, b1, k1) \<longrightarrow>
      (still cfg a \<longrightarrow> position a1 = position a \<and> velocity a1 = velocity a) \<and>
      (still cfg b \<longrightarrow> position b1 = position b \<and> velocity b1 = velocity b)) \<and>
   (Ball_init x y r c m vel acc = Inr d \<longrightarrow> 0 < inv_mass d)"
proof (intro conjI impI; (elim conjE)?)
  show "apply_force b f = b" if "inv_mass b = 0"
    using that by (rule apply_force_immovable)
  show "\<exists>a' b' k'. collide_ui cfg (a, b, k) = Inr (a', b', k') \<and> a' = a"
    if "inv_mass a = 0" "0 < inv_mass b"
  proof -
    have t: "0 < inv_mass a + inv_mass b" using that by simp
    show ?thesis using collide_ui_total [OF t, of cfg k] collide_ui_immovable(1) [OF _ t that(1)]
      by blast
  qed
  show "\<exists>a' b' k'. collide_ui cfg (a, b, k) = Inr (a', b', k') \<and> b' = b"
    if "0 < inv_mass a" "inv_mass b = 0"
  proof -
    have t: "0 < inv_mass a + inv_mass b" using that by simp
    show ?thesis using collide_ui_total [OF t, of cfg k] collide_ui_immovable(2) [OF _ t that(2)]
      by blast
  qed
  show "\<exists>a' b' k'. run_frames_ui cfg ticks (a, b, k) = Inr (a', b', k') \<and>
         position a' = position a \<and> velocity a' = velocity a"
    if "still cfg a" "0 < inv_mass b"
    using run_frames_ui_still_a [OF that, of ticks k] that(1) by (auto simp add: still_def)
  show "\<exists>a' b' k'. run_frames_ui cfg ticks (a, b, k) = Inr (a', b', k') \<and>
         position b' = position b \<and> velocity b' = velocity b"
    if "0 < inv_mass a" "still cfg b"
    using run_frames_ui_still_b [OF that, of ticks k] that(2) by (auto simp add: still_def)
  show "position a1 = position a" "velocity a1 = velocity a"
    if "run_frames_ui cfg ticks (a, b, k) = Inr (a1, b1, k1)" "still cfg a"
    using run_frames_ui_still_any [OF that(1)] that(2) by (auto simp add: still_def)
  show "position b1 = position b" "velocity b1 = velocity b"
    if "run_frames_ui cfg ticks (a, b, k) = Inr (a1, b1, k1)" "still cfg b"
    using run_frames_ui_still_any [OF that(1)] that(2) by (auto simp add: still_def)
  show "0 < inv_mass d" if "Ball_init x y r c m vel acc = Inr d"
    using Ball_init_ok [OF that] by simp
qed


text \<open>
  The immovable ball at rest on the floor, overlapped by a ball that moves towards it:
  the collision and a frame of 50 ms push the moving ball back and leave the immovable
  one where it was.
\<close>

lemma sqrt_761: "sqrt (579121 / 400) = 761 / 20"
  by (rule real_sqrt_unique) (simp_all add: power2_eq_square)

lemma sqrt_1600: "sqrt 1600 = 40"
  by (rule real_sqrt_unique) (simp_all add: power2_eq_square)

lemma rock_mover_detected: "detected_ui rock mover" "detected_ui mover rock"
  by (simp_all add: eval_defs rock_def mover_def)

lemma rock_mover_collide:
  "collide_ui ui_config (rock, mover, 0) =
     Inr (rock, mover \<lparr> position := (450, 575), velocity := (40, 0) \<rparr>, 1)"
  by (simp add: eval_defs rock_def mover_def sqrt_1600)

lemma rock_mover_frame:
  "frame_ui ui_config 50 (rock, mover, 0) =
     Inr (rock, mover \<lparr> position := (450, 575), velocity := (39, - 25 / 2),
                          acceleration := (20, 250) \<rparr>, 1)"
  by (simp add: frame_ui_def physics_update_ui_def apply_forces_ui_def apply_force_def
      normalize_def update_def wall_collisions_ui_def wall_x_def wall_y_ui_def time_step_def
      eval_defs rock_def mover_def sqrt_1600 sqrt_761 vneg_def)

lemma rock_mover_normal: "contact_normal rock mover = (1, 0)"
  by (simp add: eval_defs rock_def mover_def sqrt_1600)

lemma rock_mover_run:
  "run_frames_ui ui_config [50] (rock, mover, 0) =
     Inr (rock, mover \<lparr> position := (450, 575), velocity := (39, - 25 / 2),
                          acceleration := (20, 250) \<rparr>, 1)"
  by (simp add: rock_mover_frame)


theorem immovable_body_witness:
  "inv_mass rock = 0 \<and> 0 < inv_mass mover \<and> still ui_config rock \<and>
   detected_ui rock mover \<and> vel_along_normal (contact_normal rock mover) rock mover = - 40 \<and>
   apply_force rock (0, 250) = rock \<and>
   collide_ui ui_config (rock, mover, 0) =
     Inr (rock, mover \<lparr> position := (450, 575), velocity := (40, 0) \<rparr>, 1) \<and>
   (\<exists>a' b' k'. collide_ui ui_config (rock, mover, 0) = Inr (a', b', k') \<and> a' = rock) \<and>
   (\<exists>a' b' k'. collide_ui ui_config (mover, rock, 0) = Inr (a', b', k') \<and> b' = rock) \<and>
   run_frames_ui ui_config [50] (rock, mover, 0) =
     Inr (rock, mover \<lparr> position := (450, 575), velocity := (39, - 25 / 2),
                          acceleration := (20, 250) \<rparr>, 1) \<and>
   (\<exists>a' b' k'. run_frames_ui ui_config [50, 16, 17] (rock, mover, 0) = Inr (a', b', k') \<and>
      position a' = (400, 575) \<and> velocity a' = (0, 0)) \<and>
   (\<exists>a' b' k'. run_frames_ui ui_config [50, 16, 17] (mover, rock, 0) = Inr (a', b', k') \<and>
      position b' = (400, 575) \<and> velocity b' = (0, 0)) \<and>
   Ball_init (PyInt 0) (PyInt 0) (PyInt 1) (255, 0, 0) (PyFloat 1) (10, 0) (0, 0) = Inr s1 \<and>
   0 < inv_mass s1"
proof -
  have r: "inv_mass rock = 0" "position rock = (400, 575)" "velocity rock = (0, 0)"
    by (simp_all add: rock_def)
  have st: "still ui_config rock"
    by (simp add: still_def in_bounds_def rock_def ui_config_def)
  have m: "0 < inv_mass mover" by (simp add: mover_def)
  have v: "vel_along_normal (contact_normal rock mover) rock mover = - 40"
    unfolding rock_mover_normal
    by (simp add: vel_along_normal_def dot_def vsub_def rock_def mover_def)
  note inst = immovable_body [where f = "(0, 250)" and k = 0 and cfg = ui_config
      and x = "PyInt 0" and y = "PyInt 0" and r = "PyInt 1" and c = "(255, 0, 0)"
      and m = "PyFloat 1" and vel = "(10, 0)" and acc = "(0, 0)" and d = s1]
  note i1 = inst [where a = rock and b = mover and ticks = "[50, 16, 17]"]
  note i2 = inst [where a = mover and b = rock and ticks = "[50, 16, 17]"]
  note i3 = inst [where a = rock and b = mover and ticks = "[50]" and ?a1.0 = rock
      and ?b1.0 = "mover \<lparr> position := (450, 575), velocity := (39, - 25 / 2),
                          acceleration := (20, 250) \<rparr>" and ?k1.0 = 1]
  have 1: "apply_force rock (0, 250) = rock" using i2 r by blast
  have 2: "\<exists>a' b' k'. collide_ui ui_config (rock, mover, 0) = Inr (a', b', k') \<and> a' = rock"
    using i1 r m by blast
  have 3: "\<exists>a' b' k'. collide_ui ui_config (mover, rock, 0) = Inr (a', b', k') \<and> b' = rock"
    using i2 r m by blast
  have 4: "\<exists>a' b' k'. run_frames_ui ui_config [50, 16, 17] (rock, mover, 0) = Inr (a', b', k') \<and>
      position a' = (400, 575) \<and> velocity a' = (0, 0)"
    using i1 st m unfolding r by blast
  have 5: "\<exists>a' b' k'. run_frames_ui ui_config [50, 16, 17] (mover, rock, 0) = Inr (a', b', k') \<and>
      position b' = (400, 575) \<and> velocity b' = (0, 0)"
    using i2 st m unfolding r by blast
  have 6: "0 < inv_mass s1" using i1 concrete_balls_init(2) by blast
  have 7: "position rock = position rock \<and> velocity rock = velocity rock"
    using i3 rock_mover_run st by blast
  from r(1) m st rock_mover_detected(1) v 1 rock_mover_collide 2 3 rock_mover_run 4 5
    concrete_balls_init(2) 6 7
  show ?thesis by blast
qed

text \<open>
  Claim C3 as stated fails for an immovable ball that has a velocity or lies outside
  the walls: \<^verbatim>\<open>update\<close> moves the ball of mass zero with velocity \<^verbatim>\<open>(50, 0)\<close>, the wall
  collisions clamp and reflect it, and a whole frame of \<^verbatim>\<open>run_simulation_with_ui\<close> moves
  it from \<^verbatim>\<open>x = 200\<close> to \<^verbatim>\<open>x = 202.5\<close>.
\<close>

lemma sqrt_2500: "sqrt 2500 = 50"
  by (rule real_sqrt_unique) (simp_all add: power2_eq_square)

lemma w1_update: "update w1 (1 / 10) = (w1 \<lparr> position := (205, 300) \<rparr>, None)"
  by (simp add: update_def Let_def vadd_def smul_def w1_def)

lemma w1_frame:
  "frame_ui ui_config 50 (w1, b3, 0) =
     Inr (w1 \<lparr> position := (405 / 2, 300) \<rparr>,
          b3 \<lparr> position := (600, 2405 / 8), velocity := (0, 25 / 2), acceleration := (0, 250) \<rparr>, 0)"
  by (simp add: frame_ui_def physics_update_ui_def apply_forces_ui_def apply_force_def
      normalize_def update_def wall_collisions_ui_def wall_x_def wall_y_ui_def time_step_def
      eval_defs w1_def b3_def sqrt_2500 vneg_def)

lemma w1_wall:
  "wall_collisions_ui ui_config (w1 \<lparr> position := (5, 300) \<rparr>) =
     w1 \<lparr> position := (25, 300), velocity := (- 50, 0) \<rparr>"
  by (simp add: wall_collisions_ui_def wall_x_def wall_y_ui_def w1_def ui_config_def)

theorem immovable_body_counterexample:
  "mass w1 = 0 \<and> inv_mass w1 = 0 \<and> position w1 = (200, 300) \<and> velocity w1 = (50, 0) \<and>
   update w1 (1 / 10) = (w1 \<lparr> position := (205, 300) \<rparr>, None) \<and>
   wall_collisions_ui ui_config (w1 \<lparr> position := (5, 300) \<rparr>) =
     w1 \<lparr> position := (25, 300), velocity := (- 50, 0) \<rparr> \<and>
   frame_ui ui_config 50 (w1, b3, 0) =
     Inr (w1 \<lparr> position := (405 / 2, 300) \<rparr>,
          b3 \<lparr> position := (600, 2405 / 8), velocity := (0, 25 / 2), acceleration := (0, 250) \<rparr>, 0)"
  by (simp add: w1_update w1_wall w1_frame) (simp add: w1_def)


end
